(* ===== verification/Prelude.thy ===== *)
theory Prelude
  imports Complex_Main
begin

text \<open>
  Shared vocabulary of the slide-deck development: the collections of rewrite
  rules the component theories fill, the type names of the model, and generic
  lemmas on lists of flags and on the JavaScript number model that several
  components use.

  JavaScript numbers are modelled by a type variable \<open>'n\<close> of sort
  \<open>linordered_idom\<close>: \<open>int\<close> for the values the page itself computes (all
  integral) and \<open>rat\<close> where a caller can hand in a fractional number.
\<close>

named_theorems nav_simps
  "equations of the navigation operations on the branch they take"

named_theorems frame_simps
  "fields of the page state that an operation does not write"

type_synonym key = string

text \<open>
  A DOM class list toggled over a node list is a list of flags, one per node,
  in document order. The number of flags that are set, for a list built by
  comparing an injective image of the positions with one value, is at most one.
\<close>

lemma length_filter_eq_inj:
  assumes "distinct xs" and "inj_on f (set xs)"
  shows "length (filter (\<lambda>i. f i = c) xs) = (if c \<in> f ` set xs then 1 else 0)"
  using assms
proof (induction xs)
  case Nil
  then show ?case by simp
next
  case (Cons x xs)
  show ?case
  proof (cases "f x = c")
    case True
    with Cons.prems have "filter (\<lambda>i. f i = c) xs = []"
      by (auto simp: filter_empty_conv inj_on_def)
    with True show ?thesis by simp
  next
    case False
    with Cons show ?thesis by auto
  qed
qed

lemma count_list_map_True:
  "count_list (map P xs) True = length (filter P xs)"
  by (induction xs) auto

lemma count_list_map_upt_eq:
  fixes f :: "nat \<Rightarrow> 'a"
  assumes "inj f"
  shows "count_list (map (\<lambda>i. f i = c) [a..<b]) True = (if c \<in> f ` {a..<b} then 1 else 0)"
proof -
  have "inj_on f (set [a..<b])"
    using assms by (rule inj_on_subset) simp
  then show ?thesis
    by (simp add: count_list_map_True length_filter_eq_inj)
qed


text \<open>
  A JavaScript number such as \<open>2.5\<close> is not an integer; in the \<open>rat\<close> model
  this is the fact that half an odd integer is not in \<open>\<int>\<close>.
\<close>

lemma odd_half_not_Ints:
  assumes "odd m"
  shows "(of_int m / 2 :: 'a::linordered_field) \<notin> \<int>"
proof
  assume "(of_int m / 2 :: 'a) \<in> \<int>"
  then obtain z where "(of_int m / 2 :: 'a) = of_int z"
    by (auto elim: Ints_cases)
  then have "(of_int m :: 'a) = of_int (2 * z)"
    by (simp add: field_simps)
  then have "m = 2 * z"
    by (simp only: of_int_eq_iff)
  with assms show False by simp
qed

lemma of_nat_succ_Ints [simp]: "of_nat k + 1 \<in> \<int>"
  by (intro Ints_add Ints_of_nat Ints_1)

end
