(* ===== verification/Deck.thy ===== *)
theory Deck
  imports Prelude
begin

text \<open>
  The navigation controller of \<open>src/script.js\<close>: the global \<open>currentSlide\<close>
  (line 2), the constant \<open>totalSlides\<close> (line 3), the part of the DOM that
  \<open>updateSlideDisplay\<close> writes (lines 39--56), and the three navigation
  operations \<open>nextSlide\<close>, \<open>prevSlide\<close>, \<open>goToSlide\<close> (lines 59--80).

  The state is a record \<open>deck\<close>; the page record of theory \<open>Input\<close> extends it, and
  every operation here is stated on the record scheme so that the page's
  handlers call them unchanged. A JavaScript number is a value of
  \<open>'n::linordered_idom\<close>.
\<close>

section \<open>Data\<close>

definition totalSlides :: "'a::numeral" where
  "totalSlides = 8"

text \<open>
  The DOM nodes \<open>updateSlideDisplay\<close> writes: the \<open>active\<close> class of every
  \<open>.slide\<close> and every \<open>.indicator\<close> (one flag per node, in document order),
  the text of \<open>#current-slide\<close> and \<open>#total-slides\<close> (the number they
  display), and the \<open>disabled\<close> property of the two navigation buttons.
\<close>

record 'n view =
  slide_active :: "bool list"
  indicator_active :: "bool list"
  counter_text :: 'n
  total_text :: 'n
  prev_disabled :: bool
  next_disabled :: bool

record 'n deck =
  currentSlide :: 'n
  dom_view :: "'n view"

section \<open>Operations\<close>

text \<open>\<open>list.forEach((node, index) => node.classList.toggle('active', index + 1 === currentSlide))\<close>\<close>

definition active_flags :: "nat \<Rightarrow> 'n::linordered_idom \<Rightarrow> bool list" where
  "active_flags len c = map (\<lambda>index. of_nat index + 1 = c) [0..<len]"

definition updateSlideDisplay ::
  "('n::linordered_idom, 'z) deck_scheme \<Rightarrow> ('n, 'z) deck_scheme" where
  "updateSlideDisplay d =
     (let c = currentSlide d; v = dom_view d in
      d\<lparr>dom_view := v\<lparr>slide_active := active_flags (length (slide_active v)) c,
                       indicator_active := active_flags (length (indicator_active v)) c,
                       counter_text := c,
                       prev_disabled := (c = 1),
                       next_disabled := (c = totalSlides)\<rparr>\<rparr>)"

definition nextSlide :: "('n::linordered_idom, 'z) deck_scheme \<Rightarrow> ('n, 'z) deck_scheme" where
  "nextSlide d =
     (if currentSlide d < totalSlides
      then updateSlideDisplay (d\<lparr>currentSlide := currentSlide d + 1\<rparr>)
      else d)"

definition prevSlide :: "('n::linordered_idom, 'z) deck_scheme \<Rightarrow> ('n, 'z) deck_scheme" where
  "prevSlide d =
     (if currentSlide d > 1
      then updateSlideDisplay (d\<lparr>currentSlide := currentSlide d - 1\<rparr>)
      else d)"

definition goToSlide ::
  "'n::linordered_idom \<Rightarrow> ('n, 'z) deck_scheme \<Rightarrow> ('n, 'z) deck_scheme" where
  "goToSlide slideNumber d =
     (if slideNumber \<ge> 1 \<and> slideNumber \<le> totalSlides
      then updateSlideDisplay (d\<lparr>currentSlide := slideNumber\<rparr>)
      else d)"

section \<open>Invariant\<close>

text \<open>
  The slide numbers are \<open>index + 1\<close> for the positions \<open>index\<close> of the deck;
  \<open>in_deck\<close> holds of exactly these numbers (executable: a list membership).
  \<open>rendered\<close> says that the DOM shows the current index: re-rendering would
  change nothing.
\<close>

definition slide_numbers :: "'n::linordered_idom list" where
  "slide_numbers = map (\<lambda>index. of_nat index + 1) [0..<totalSlides]"

definition in_deck :: "'n::linordered_idom \<Rightarrow> bool" where
  "in_deck c \<longleftrightarrow> c \<in> set slide_numbers"

definition rendered :: "('n::linordered_idom, 'z) deck_scheme \<Rightarrow> bool" where
  "rendered d \<longleftrightarrow> dom_view (updateSlideDisplay d) = dom_view d"

definition deck_inv :: "('n::linordered_idom, 'z) deck_scheme \<Rightarrow> bool" where
  "deck_inv d \<longleftrightarrow> in_deck (currentSlide d) \<and> rendered d"

section \<open>The public calls and runs of them\<close>

text \<open>
  \<open>window.nextSlide\<close>, \<open>window.prevSlide\<close> and \<open>window.goToSlide\<close> (lines
  215--217) are the controller's interface: the input adapters and any
  external caller reach the deck only through them. A run is a sequence of
  such calls, executed one after the other.
\<close>

datatype 'n nav_op = Next | Prev | GoTo 'n

fun nav_step :: "'n nav_op \<Rightarrow> ('n::linordered_idom, 'z) deck_scheme \<Rightarrow> ('n, 'z) deck_scheme" where
  "nav_step Next d = nextSlide d"
| "nav_step Prev d = prevSlide d"
| "nav_step (GoTo n) d = goToSlide n d"

fun nav_run :: "'n nav_op list \<Rightarrow> ('n::linordered_idom, 'z) deck_scheme \<Rightarrow> ('n, 'z) deck_scheme" where
  "nav_run [] d = d"
| "nav_run (op # ops) d = nav_run ops (nav_step op d)"

section \<open>Abstract specification\<close>

text \<open>
  The contract of section 4.1 of the specification, on a 0-based position in
  a deck of \<open>totalSlides\<close> slides: \<open>Next\<close> moves right and stops at the last
  position, \<open>Prev\<close> moves left and stops at 0 (truncated subtraction on
  \<open>nat\<close>), \<open>GoTo n\<close> jumps to slide \<open>n\<close> when it exists and is ignored
  otherwise. The view the spec promises is a function of the position: one
  flag per node, set exactly at the position.
\<close>

fun nav_abs :: "int nav_op \<Rightarrow> nat \<Rightarrow> nat" where
  "nav_abs Next p = min (Suc p) (totalSlides - 1)"
| "nav_abs Prev p = p - 1"
| "nav_abs (GoTo n) p = (if 1 \<le> n \<and> n \<le> totalSlides then nat (n - 1) else p)"

definition position :: "(int, 'z) deck_scheme \<Rightarrow> nat" where
  "position d = nat (currentSlide d - 1)"

definition flags_at :: "nat \<Rightarrow> nat \<Rightarrow> bool list" where
  "flags_at len p = map (\<lambda>i. i = p) [0..<len]"

section \<open>Concrete decks\<close>

text \<open>
  A page whose markup has \<open>len\<close> slides and \<open>len\<close> indicators, none of them
  active yet; the deck of the repository's page has \<open>totalSlides\<close> of each.
  Used to run the operations on concrete states.
\<close>

definition fresh_view :: "nat \<Rightarrow> 'n::linordered_idom view" where
  "fresh_view len =
     \<lparr>slide_active = replicate len False, indicator_active = replicate len False,
      counter_text = 0, total_text = 0, prev_disabled = False, next_disabled = False\<rparr>"

abbreviation deck_at :: "'n::linordered_idom \<Rightarrow> 'n deck" where
  "deck_at c \<equiv> \<lparr>currentSlide = c, dom_view = fresh_view totalSlides\<rparr>"

section \<open>Basic facts\<close>

lemma of_nat_totalSlides [simp]: "of_nat totalSlides = (totalSlides :: 'n::linordered_idom)"
  by (simp add: totalSlides_def)

lemma totalSlides_int: "(totalSlides :: int) = 8"
  by (simp add: totalSlides_def)

lemma in_deck_iff: "in_deck c \<longleftrightarrow> (\<exists>k. c = of_nat k + 1 \<and> k < totalSlides)"
  by (auto simp: in_deck_def slide_numbers_def)

lemma in_deck_int_iff: "in_deck (c::int) \<longleftrightarrow> 1 \<le> c \<and> c \<le> totalSlides"
proof
  assume "in_deck c"
  then show "1 \<le> c \<and> c \<le> totalSlides"
    by (auto simp: in_deck_iff totalSlides_def)
next
  assume c: "1 \<le> c \<and> c \<le> totalSlides"
  then have "c = of_nat (nat (c - 1)) + 1 \<and> nat (c - 1) < totalSlides"
    by (simp add: totalSlides_def nat_less_iff)
  then show "in_deck c"
    unfolding in_deck_iff by blast
qed


lemma in_deck_bounds: "in_deck c \<Longrightarrow> 1 \<le> c \<and> c \<le> totalSlides"
  by (auto simp: in_deck_iff totalSlides_def)

lemma in_deck_Suc:
  assumes "in_deck c" and "c < totalSlides"
  shows "in_deck (c + 1)"
proof -
  from assms(1) obtain k where c: "c = of_nat k + 1" and "k < totalSlides"
    by (auto simp: in_deck_iff)
  with assms(2) have "Suc k < totalSlides"
    by (simp add: totalSlides_def)
  with c show ?thesis
    by (auto simp: in_deck_iff intro!: exI [of _ "Suc k"])
qed

lemma in_deck_pred:
  assumes "in_deck c" and "c > 1"
  shows "in_deck (c - 1)"
proof -
  from assms(1) obtain k where c: "c = of_nat k + 1" and k: "k < totalSlides"
    by (auto simp: in_deck_iff)
  with assms(2) have "0 < k" by simp
  with c k show ?thesis
    by (auto simp: in_deck_iff intro!: exI [of _ "k - 1"])
qed

section \<open>Rendering\<close>

lemma length_active_flags [simp]: "length (active_flags len c) = len"
  by (simp add: active_flags_def)

lemma nth_active_flags [simp]: "i < len \<Longrightarrow> active_flags len c ! i = (of_nat i + 1 = c)"
  by (simp add: active_flags_def)

lemma count_active_flags:
  "count_list (active_flags len c) True =
     (if \<exists>k < len. c = of_nat k + 1 then 1 else 0)"
proof -
  have "inj (\<lambda>index. (of_nat index :: 'a::linordered_idom) + 1)"
    by (simp add: inj_def)
  then show ?thesis
    unfolding active_flags_def by (auto simp: count_list_map_upt_eq)
qed


lemma currentSlide_updateSlideDisplay [simp]:
  "currentSlide (updateSlideDisplay d) = currentSlide d"
  by (simp add: updateSlideDisplay_def Let_def)

lemma more_updateSlideDisplay [frame_simps]:
  "deck.more (updateSlideDisplay d) = deck.more d"
  by (simp add: updateSlideDisplay_def Let_def)

lemma view_updateSlideDisplay:
  "dom_view (updateSlideDisplay d) =
     (let c = currentSlide d; v = dom_view d in
      v\<lparr>slide_active := active_flags (length (slide_active v)) c,
        indicator_active := active_flags (length (indicator_active v)) c,
        counter_text := c, prev_disabled := (c = 1), next_disabled := (c = totalSlides)\<rparr>)"
  by (simp add: updateSlideDisplay_def Let_def)

lemma lengths_updateSlideDisplay [simp]:
  "length (slide_active (dom_view (updateSlideDisplay d))) = length (slide_active (dom_view d))"
  "length (indicator_active (dom_view (updateSlideDisplay d))) = length (indicator_active (dom_view d))"
  "total_text (dom_view (updateSlideDisplay d)) = total_text (dom_view d)"
  by (simp_all add: view_updateSlideDisplay Let_def)

lemma rendered_iff:
  "rendered d \<longleftrightarrow>
     (let c = currentSlide d; v = dom_view d in
      slide_active v = active_flags (length (slide_active v)) c \<and>
      indicator_active v = active_flags (length (indicator_active v)) c \<and>
      counter_text v = c \<and> prev_disabled v = (c = 1) \<and> next_disabled v = (c = totalSlides))"
  by (cases "dom_view d") (auto simp: rendered_def view_updateSlideDisplay Let_def)

lemma rendered_updateSlideDisplay [simp]: "rendered (updateSlideDisplay d)"
  by (simp add: rendered_iff view_updateSlideDisplay Let_def)

lemma updateSlideDisplay_idem: "rendered d \<Longrightarrow> updateSlideDisplay d = d"
  by (simp add: rendered_def updateSlideDisplay_def Let_def)

lemmas rendered_viewD = rendered_iff [THEN iffD1, unfolded Let_def]

lemma updateSlideDisplay_rerender:
  "updateSlideDisplay ((updateSlideDisplay d)\<lparr>currentSlide := c\<rparr>) =
   updateSlideDisplay (d\<lparr>currentSlide := c\<rparr>)"
  by (simp add: updateSlideDisplay_def Let_def)

section \<open>The branches of the navigation operations\<close>

lemma nextSlide_advance [nav_simps]:
  "currentSlide d < totalSlides \<Longrightarrow>
   nextSlide d = updateSlideDisplay (d\<lparr>currentSlide := currentSlide d + 1\<rparr>)"
  by (simp add: nextSlide_def)

lemma nextSlide_stay [nav_simps]: "\<not> currentSlide d < totalSlides \<Longrightarrow> nextSlide d = d"
  by (simp add: nextSlide_def)

lemma prevSlide_retreat [nav_simps]:
  "currentSlide d > 1 \<Longrightarrow>
   prevSlide d = updateSlideDisplay (d\<lparr>currentSlide := currentSlide d - 1\<rparr>)"
  by (simp add: prevSlide_def)

lemma prevSlide_stay [nav_simps]: "\<not> currentSlide d > 1 \<Longrightarrow> prevSlide d = d"
  by (simp add: prevSlide_def)

lemma goToSlide_accept [nav_simps]:
  "1 \<le> n \<Longrightarrow> n \<le> totalSlides \<Longrightarrow>
   goToSlide n d = updateSlideDisplay (d\<lparr>currentSlide := n\<rparr>)"
  by (simp add: goToSlide_def)

lemma goToSlide_reject [nav_simps]: "\<not> (1 \<le> n \<and> n \<le> totalSlides) \<Longrightarrow> goToSlide n d = d"
  by (auto simp: goToSlide_def)

lemma more_nav [frame_simps]:
  "deck.more (nextSlide d) = deck.more d"
  "deck.more (prevSlide d) = deck.more d"
  "deck.more (goToSlide n d) = deck.more d"
  by (simp_all add: nextSlide_def prevSlide_def goToSlide_def more_updateSlideDisplay)

lemma rendered_nav:
  assumes "rendered d"
  shows "rendered (nextSlide d)" "rendered (prevSlide d)" "rendered (goToSlide n d)"
  using assms by (simp_all add: nextSlide_def prevSlide_def goToSlide_def)

lemma in_deck_nextSlide: "in_deck (currentSlide d) \<Longrightarrow> in_deck (currentSlide (nextSlide d))"
  by (simp add: nextSlide_def in_deck_Suc)

lemma in_deck_prevSlide: "in_deck (currentSlide d) \<Longrightarrow> in_deck (currentSlide (prevSlide d))"
  by (simp add: prevSlide_def in_deck_pred)

lemma in_deck_goToSlide_int:
  "in_deck (currentSlide d) \<Longrightarrow> in_deck (currentSlide (goToSlide (n::int) d))"
  by (simp add: goToSlide_def in_deck_int_iff)

section \<open>Properties of the controller\<close>

lemma deck_inv_nav_step_int:
  "deck_inv d \<Longrightarrow> deck_inv (nav_step (op :: int nav_op) d)"
  by (cases op) (auto simp: deck_inv_def rendered_nav in_deck_nextSlide in_deck_prevSlide
      in_deck_goToSlide_int)

lemma deck_inv_nav_run_int:
  "deck_inv d \<Longrightarrow> deck_inv (nav_run (ops :: int nav_op list) d)"
  by (induction ops arbitrary: d) (auto simp: deck_inv_nav_step_int)

lemma position_nav_step_in_deck:
  assumes "in_deck (currentSlide d)"
  shows "position (nav_step op d) = nav_abs op (position d)"
proof -
  from assms have c: "1 \<le> currentSlide d" "currentSlide d \<le> 8"
    by (auto simp: in_deck_int_iff totalSlides_def)
  show ?thesis
  proof (cases op)
    case Next
    with c show ?thesis
      by (auto simp: position_def nextSlide_def totalSlides_def)
  next
    case Prev
    with c show ?thesis
      by (auto simp: position_def prevSlide_def nat_diff_distrib)
  next
    case (GoTo n)
    with c show ?thesis
      by (auto simp: position_def goToSlide_def)
  qed
qed

lemma position_nav_step:
  "deck_inv d \<Longrightarrow> position (nav_step op d) = nav_abs op (position d)"
  by (simp add: deck_inv_def position_nav_step_in_deck)

lemma active_flags_position:
  "in_deck (currentSlide d) \<Longrightarrow> active_flags len (currentSlide d) = flags_at len (position d)"
  by (auto simp: active_flags_def flags_at_def position_def in_deck_int_iff)

lemma rendered_nav_step: "rendered d \<Longrightarrow> rendered (nav_step op d)"
  by (cases op) (simp_all add: rendered_nav)

lemma lengths_nav_step [simp]:
  "length (slide_active (dom_view (nav_step op d))) = length (slide_active (dom_view d))"
  "length (indicator_active (dom_view (nav_step op d))) = length (indicator_active (dom_view d))"
  by (cases op; simp add: nextSlide_def prevSlide_def goToSlide_def)+

lemma lengths_nav_run [simp]:
  "length (slide_active (dom_view (nav_run ops d))) = length (slide_active (dom_view d))"
  "length (indicator_active (dom_view (nav_run ops d))) = length (indicator_active (dom_view d))"
  by (induction ops arbitrary: d) simp_all

lemma position_nav_run:
  "deck_inv d \<Longrightarrow> position (nav_run ops d) = fold nav_abs ops (position d)"
  by (induction ops arbitrary: d) (simp_all add: position_nav_step deck_inv_nav_step_int)

lemma nextSlide_index_int:
  fixes d :: "(int, 'z) deck_scheme"
  shows "in_deck (currentSlide d) \<Longrightarrow> currentSlide (nextSlide d) = min (currentSlide d + 1) totalSlides"
  by (drule in_deck_bounds) (auto simp: nextSlide_def)

lemma prevSlide_index_int:
  fixes d :: "(int, 'z) deck_scheme"
  shows "in_deck (currentSlide d) \<Longrightarrow> currentSlide (prevSlide d) = max (currentSlide d - 1) 1"
  by (drule in_deck_bounds) (auto simp: prevSlide_def)

lemma active_flags_single:
  assumes "1 \<le> c" and "c \<le> int len"
  shows "count_list (active_flags len c) True = 1 \<and> active_flags len c ! nat (c - 1)"
proof -
  from assms have "nat (c - 1) < len \<and> c = int (nat (c - 1)) + 1" by auto
  then show ?thesis by (auto simp: count_active_flags)
qed

lemma currentSlide_position:
  fixes d :: "(int, 'z) deck_scheme"
  shows "in_deck (currentSlide d) \<Longrightarrow> currentSlide d = int (position d) + 1"
  by (simp add: position_def in_deck_int_iff)

lemma fold_nav_abs_Next:
  "p \<le> totalSlides - 1 \<Longrightarrow> fold nav_abs (replicate m Next) p = min (p + m) (totalSlides - 1)"
  by (induction m arbitrary: p) (simp_all add: totalSlides_def)

section \<open>Claims on the controller\<close>

text \<open>
  C3. \<open>nextSlide\<close> on a deck whose index is a slide number moves to the next
  slide and stops at the last one: the new index is \<open>min (i + 1) totalSlides\<close>,
  and at the last slide the call changes nothing at all (DOM included).
\<close>

theorem nextSlide_clamp:
  fixes d :: "(int, 'z) deck_scheme"
  assumes "in_deck (currentSlide d)"
  shows "currentSlide (nextSlide d) = min (currentSlide d + 1) totalSlides \<and>
         (currentSlide d = totalSlides \<longrightarrow> nextSlide d = d)"
  using in_deck_bounds [OF assms] by (auto simp: nextSlide_index_int [OF assms] nextSlide_def)

theorem nextSlide_clamp_witness:
  "currentSlide (nextSlide (deck_at (3::int))) = 4 \<and> nextSlide (deck_at (8::int)) = deck_at 8"
proof -
  have "in_deck (3::int)" "in_deck (8::int)" by (simp_all add: in_deck_int_iff totalSlides_def)
  then show ?thesis
    using nextSlide_clamp [of "deck_at (3::int)"] nextSlide_clamp [of "deck_at (8::int)"]
    by (simp add: totalSlides_def)
qed

text \<open>
  C4. \<open>prevSlide\<close> on a deck whose index is a slide number moves to the
  previous slide and stops at the first one: the new index is
  \<open>max (i - 1) 1\<close>, and at slide 1 the call changes nothing at all.
\<close>

theorem prevSlide_clamp:
  fixes d :: "(int, 'z) deck_scheme"
  assumes "in_deck (currentSlide d)"
  shows "currentSlide (prevSlide d) = max (currentSlide d - 1) 1 \<and>
         (currentSlide d = 1 \<longrightarrow> prevSlide d = d)"
  using in_deck_bounds [OF assms] by (auto simp: prevSlide_index_int [OF assms] prevSlide_def)

theorem prevSlide_clamp_witness:
  "currentSlide (prevSlide (deck_at (5::int))) = 4 \<and> prevSlide (deck_at (1::int)) = deck_at 1"
proof -
  have "in_deck (5::int)" "in_deck (1::int)" by (simp_all add: in_deck_int_iff totalSlides_def)
  then show ?thesis
    using prevSlide_clamp [of "deck_at (5::int)"] prevSlide_clamp [of "deck_at (1::int)"]
    by simp
qed

text \<open>
  C5. On a page with \<open>totalSlides\<close> slides and indicators, \<open>goToSlide n\<close> for
  every slide number \<open>n\<close> sets the index to \<open>n\<close> and leaves exactly one slide
  and exactly one indicator marked active, the one at position \<open>n\<close>.
\<close>

theorem goToSlide_exactly_one:
  fixes d :: "(int, 'z) deck_scheme"
  assumes "1 \<le> n" and "n \<le> totalSlides"
    and "length (slide_active (dom_view d)) = totalSlides"
    and "length (indicator_active (dom_view d)) = totalSlides"
  shows "currentSlide (goToSlide n d) = n \<and>
    count_list (slide_active (dom_view (goToSlide n d))) True = 1 \<and>
    slide_active (dom_view (goToSlide n d)) ! nat (n - 1) \<and>
    count_list (indicator_active (dom_view (goToSlide n d))) True = 1 \<and>
    indicator_active (dom_view (goToSlide n d)) ! nat (n - 1)"
proof -
  have flags: "count_list (active_flags totalSlides n) True = 1 \<and>
               active_flags totalSlides n ! nat (n - 1)"
    using assms(1,2) by (intro active_flags_single) simp_all
  show ?thesis
    using assms flags by (simp add: goToSlide_accept view_updateSlideDisplay)
qed

theorem goToSlide_exactly_one_witness:
  "currentSlide (goToSlide 3 (deck_at (1::int))) = 3 \<and>
   count_list (slide_active (dom_view (goToSlide 3 (deck_at (1::int))))) True = 1 \<and>
   slide_active (dom_view (goToSlide 3 (deck_at (1::int)))) ! 2"
  using goToSlide_exactly_one [of 3 "deck_at (1::int)"]
  by (simp add: totalSlides_def fresh_view_def)

text \<open>
  C6. On a deck in its invariant, \<open>goToSlide n\<close> leaves the whole state (index
  and DOM) unchanged exactly when \<open>n\<close> is below 1, above \<open>totalSlides\<close>, or
  already the current slide: out-of-range targets are silently rejected.
\<close>

theorem goToSlide_unchanged_iff:
  fixes d :: "(int, 'z) deck_scheme"
  assumes "deck_inv d"
  shows "goToSlide n d = d \<longleftrightarrow> n < 1 \<or> totalSlides < n \<or> n = currentSlide d"
proof (cases "1 \<le> n \<and> n \<le> totalSlides")
  case True
  from assms have upd: "updateSlideDisplay d = d" and c: "in_deck (currentSlide d)"
    by (simp_all add: deck_inv_def updateSlideDisplay_idem)
  from c have "1 \<le> currentSlide d \<and> currentSlide d \<le> totalSlides"
    by (rule in_deck_bounds)
  then have same: "goToSlide (currentSlide d) d = d"
    using upd by (simp add: goToSlide_def)
  have "n \<noteq> currentSlide d \<Longrightarrow> goToSlide n d \<noteq> d"
    using True by (metis currentSlide_updateSlideDisplay goToSlide_accept deck.select_convs(1)
        deck.surjective deck.update_convs(1))
  with True same show ?thesis by auto
next
  case False
  then show ?thesis by (auto simp: goToSlide_reject)
qed

theorem goToSlide_unchanged_iff_witness:
  "goToSlide 0 (updateSlideDisplay (deck_at (4::int))) = updateSlideDisplay (deck_at 4) \<and>
   goToSlide 9 (updateSlideDisplay (deck_at (4::int))) = updateSlideDisplay (deck_at 4) \<and>
   goToSlide 5 (updateSlideDisplay (deck_at (4::int))) \<noteq> updateSlideDisplay (deck_at 4)"
proof -
  have inv: "deck_inv (updateSlideDisplay (deck_at (4::int)))"
    by (simp add: deck_inv_def in_deck_int_iff totalSlides_def)
  show ?thesis
    using goToSlide_unchanged_iff [OF inv, of 0] goToSlide_unchanged_iff [OF inv, of 9]
      goToSlide_unchanged_iff [OF inv, of 5]
    by (simp add: totalSlides_def)
qed

text \<open>
  C7. Whatever the call, once the DOM shows the current index it still does
  after the call: the "previous" button is disabled exactly when the index is
  1 and the "next" button exactly when it is \<open>totalSlides\<close>. This holds for
  every JavaScript number, fractional ones included.
\<close>

theorem nav_buttons_disabled:
  assumes "rendered d"
  shows "prev_disabled (dom_view (nav_step op d)) = (currentSlide (nav_step op d) = 1) \<and>
         next_disabled (dom_view (nav_step op d)) = (currentSlide (nav_step op d) = totalSlides)"
  using rendered_viewD [OF rendered_nav_step [OF assms]] by simp

theorem nav_buttons_disabled_witness:
  "next_disabled (dom_view (nav_step Next (updateSlideDisplay (deck_at (7::int))))) \<and>
   \<not> prev_disabled (dom_view (nav_step Next (updateSlideDisplay (deck_at (7::int))))) \<and>
   prev_disabled (dom_view (nav_step Prev (updateSlideDisplay (deck_at (2::rat)))))"
  using nav_buttons_disabled [of "updateSlideDisplay (deck_at (7::int))" Next]
    nav_buttons_disabled [of "updateSlideDisplay (deck_at (2::rat))" Prev]
  by (simp add: nextSlide_def prevSlide_def totalSlides_def)

text \<open>
  C2. Refinement: on a deck in its invariant, any run of public calls moves the
  0-based position exactly as the abstract clamped counter \<open>nav_abs\<close> of the
  specification does, and the slide and indicator flags in the DOM are the
  abstract view of that position (one flag set, at the position).
\<close>

theorem nav_run_refines:
  fixes d :: "(int, 'z) deck_scheme"
  assumes "deck_inv d"
  shows "position (nav_run ops d) = fold nav_abs ops (position d) \<and>
    slide_active (dom_view (nav_run ops d)) =
      flags_at (length (slide_active (dom_view d))) (position (nav_run ops d)) \<and>
    indicator_active (dom_view (nav_run ops d)) =
      flags_at (length (indicator_active (dom_view d))) (position (nav_run ops d))"
proof -
  have "deck_inv (nav_run ops d)"
    using assms by (rule deck_inv_nav_run_int)
  then have r: "rendered (nav_run ops d)" and c: "in_deck (currentSlide (nav_run ops d))"
    by (simp_all add: deck_inv_def)
  show ?thesis
    using rendered_viewD [OF r] active_flags_position [OF c] position_nav_run [OF assms]
    by simp
qed

theorem nav_run_refines_witness:
  "position (nav_run [Next, Next, Prev, GoTo 6, GoTo 42, Next]
      (updateSlideDisplay (deck_at (1::int)))) = 6 \<and>
   slide_active (dom_view (nav_run [Next, Next, Prev, GoTo 6, GoTo 42, Next]
      (updateSlideDisplay (deck_at (1::int))))) = flags_at 8 6"
proof -
  have inv: "deck_inv (updateSlideDisplay (deck_at (1::int)))"
    by (simp add: deck_inv_def in_deck_int_iff totalSlides_def)
  show ?thesis
    using nav_run_refines [OF inv, of "[Next, Next, Prev, GoTo 6, GoTo 42, Next]"]
    by (simp add: position_def totalSlides_def fresh_view_def)
qed

text \<open>
  C12. From any slide number \<open>i\<close>, \<open>k\<close> successive \<open>nextSlide\<close> calls reach
  \<open>min (i + k) totalSlides\<close>: seven calls from slide 1 reach slide 8, and an
  eighth is a no-op.
\<close>

theorem nextSlide_run_reaches_last:
  fixes d :: "(int, 'z) deck_scheme"
  assumes "in_deck (currentSlide d)"
  shows "currentSlide (nav_run (replicate k Next) d) = min (currentSlide d + int k) totalSlides"
  using assms
proof (induction k arbitrary: d)
  case 0
  then show ?case using in_deck_bounds [OF "0.prems"] by simp
next
  case (Suc k)
  have "in_deck (currentSlide (nextSlide d))"
    using Suc.prems by (rule in_deck_nextSlide)
  then show ?case
    using Suc.IH nextSlide_index_int [OF Suc.prems] by (auto simp: min_def)
qed

theorem nextSlide_run_reaches_last_witness:
  "currentSlide (nav_run (replicate 7 Next) (deck_at (1::int))) = 8 \<and>
   currentSlide (nav_run (replicate 8 Next) (deck_at (1::int))) = 8"
  using nextSlide_run_reaches_last [of "deck_at (1::int)" 7]
    nextSlide_run_reaches_last [of "deck_at (1::int)" 8]
  by (simp add: in_deck_int_iff totalSlides_def)



text \<open>
  C21. \<open>prevSlide\<close> undoes \<open>nextSlide\<close> and \<open>nextSlide\<close> undoes \<open>prevSlide\<close>,
  the DOM included, on a rendered deck away from the end the first call
  would clamp at: the two calls are mutually inverse inside the deck.
\<close>

theorem next_prev_roundtrip:
  assumes "deck_inv d"
  shows "(currentSlide d < totalSlides \<longrightarrow> prevSlide (nextSlide d) = d) \<and>
         (1 < currentSlide d \<longrightarrow> nextSlide (prevSlide d) = d)"
proof -
  from assms have r: "rendered d" and b: "1 \<le> currentSlide d \<and> currentSlide d \<le> totalSlides"
    by (simp_all add: deck_inv_def in_deck_bounds)
  have "prevSlide (nextSlide d) = d" if "currentSlide d < totalSlides"
    using that b by (simp add: nav_simps updateSlideDisplay_rerender updateSlideDisplay_idem [OF r])
  moreover have "nextSlide (prevSlide d) = d" if "1 < currentSlide d"
    using that b by (simp add: nav_simps updateSlideDisplay_rerender updateSlideDisplay_idem [OF r])
  ultimately show ?thesis by blast
qed

theorem next_prev_roundtrip_witness:
  "prevSlide (nextSlide (updateSlideDisplay (deck_at (3::int)))) = updateSlideDisplay (deck_at 3) \<and>
   nextSlide (prevSlide (updateSlideDisplay (deck_at (3::int)))) = updateSlideDisplay (deck_at 3)"
proof -
  have "deck_inv (updateSlideDisplay (deck_at (3::int)))"
    by (simp add: deck_inv_def in_deck_int_iff totalSlides_def)
  from next_prev_roundtrip [OF this] show ?thesis
    by (simp add: totalSlides_def)
qed

end
