(* ===== verification/Input.thy ===== *)
theory Input
  imports Deck
begin

text \<open>
  The page's global state and the three input adapters of \<open>src/script.js\<close>:
  the keyboard handler \<open>handleKeyPress\<close> with \<open>toggleFullscreen\<close> (lines
  83--116), the touch listeners and \<open>handleSwipe\<close> registered by \<open>init\<close>
  (lines 20--35), and the mouse listeners registered at load time (lines
  130--154).

  The page state \<open>page\<close> extends the controller's \<open>deck\<close> record with the
  variables the adapters keep: the closure variables \<open>touchStartX\<close> and
  \<open>touchEndX\<close> of \<open>init\<close>, the globals \<open>mouseStartX\<close> and \<open>isMouseDown\<close>,
  the host's \<open>document.fullscreenElement\<close> (present or not), the \<open>active\<close>
  flags of the demo tabs, and whether \<open>init\<close> and \<open>initDemoInteraction\<close> have
  registered their listeners, and the fade-in of the \<open>DOMContentLoaded\<close>
  handler (lines 200--206): the inline \<open>opacity\<close> and \<open>transition\<close> of
  \<open>document.body\<close> (\<open>None\<close> while the script has not set them) and the
  number of its \<open>setTimeout\<close> callbacks still pending. Handlers return the
  new state and the list of effects they ask of the host.
\<close>

section \<open>Page state and host effects\<close>

record 'n page = "'n deck" +
  fullscreen :: bool
  touchStartX :: 'n
  touchEndX :: 'n
  mouseStartX :: 'n
  isMouseDown :: bool
  tab_active :: "bool list"
  listening :: bool
  tabs_wired :: bool
  body_opacity :: "string option"
  body_transition :: "string option"
  fade_timers :: nat

datatype effect = PreventDefault | RequestFullscreen | ExitFullscreen | Print

section \<open>KeyAdapter\<close>

definition toggleFullscreen :: "('n, 'z) page_scheme \<Rightarrow> effect list" where
  "toggleFullscreen p = (if \<not> fullscreen p then [RequestFullscreen] else [ExitFullscreen])"

definition handleKeyPress ::
  "key \<Rightarrow> ('n::linordered_idom, 'z) page_scheme \<Rightarrow> ('n, 'z) page_scheme \<times> effect list" where
  "handleKeyPress k p =
     (if k = ''ArrowRight'' \<or> k = '' '' then (nextSlide p, [PreventDefault])
      else if k = ''ArrowLeft'' then (prevSlide p, [PreventDefault])
      else if k = ''Home'' then (goToSlide 1 p, [PreventDefault])
      else if k = ''End'' then (goToSlide totalSlides p, [PreventDefault])
      else if k = ''Escape'' then (p, toggleFullscreen p)
      else (p, []))"

section \<open>SwipeAdapter\<close>

definition handleSwipe :: "('n::linordered_idom, 'z) page_scheme \<Rightarrow> ('n, 'z) page_scheme" where
  "handleSwipe p =
     (let p1 = (if touchEndX p < touchStartX p - 50 then nextSlide p else p)
      in if touchEndX p1 > touchStartX p1 + 50 then prevSlide p1 else p1)"

definition onTouchStart :: "'n \<Rightarrow> ('n, 'z) page_scheme \<Rightarrow> ('n, 'z) page_scheme" where
  "onTouchStart screenX p = p\<lparr>touchStartX := screenX\<rparr>"

definition onTouchEnd ::
  "'n::linordered_idom \<Rightarrow> ('n, 'z) page_scheme \<Rightarrow> ('n, 'z) page_scheme" where
  "onTouchEnd screenX p = handleSwipe (p\<lparr>touchEndX := screenX\<rparr>)"

section \<open>DragAdapter\<close>

text \<open>
  \<open>inSlide\<close> is \<open>e.target.closest('.slide') != null\<close>: whether the press
  started inside a slide panel.
\<close>

definition onMouseDown :: "bool \<Rightarrow> 'n \<Rightarrow> ('n, 'z) page_scheme \<Rightarrow> ('n, 'z) page_scheme" where
  "onMouseDown inSlide clientX p =
     (if inSlide then p\<lparr>mouseStartX := clientX, isMouseDown := True\<rparr> else p)"

definition onMouseUp ::
  "'n::linordered_idom \<Rightarrow> ('n, 'z) page_scheme \<Rightarrow> ('n, 'z) page_scheme" where
  "onMouseUp clientX p =
     (let p1 = (if isMouseDown p
                then (let diff = clientX - mouseStartX p in
                      if \<bar>diff\<bar> > 50 then (if diff > 0 then prevSlide p else nextSlide p)
                      else p)
                else p)
      in p1\<lparr>isMouseDown := False\<rparr>)"

section \<open>The specification's view of the adapters\<close>

text \<open>
  Section 4.2 of the specification as a table from keys to public calls, and
  sections 4.3--4.4 as the decision of a two-point gesture from its horizontal
  start and end: a movement of more than 50 to the left is \<open>next\<close>, more than
  50 to the right is \<open>previous\<close>, anything else is noise.
\<close>

definition key_nav :: "key \<Rightarrow> 'n::numeral nav_op option" where
  "key_nav k =
     (if k \<in> {''ArrowRight'', '' ''} then Some Next
      else if k = ''ArrowLeft'' then Some Prev
      else if k = ''Home'' then Some (GoTo 1)
      else if k = ''End'' then Some (GoTo totalSlides)
      else None)"

definition gesture_call :: "'n::linordered_idom \<Rightarrow> 'n \<Rightarrow> 'n nav_op option" where
  "gesture_call start stop =
     (if stop - start < -50 then Some Next else if stop - start > 50 then Some Prev else None)"

definition apply_call :: "'n nav_op option \<Rightarrow> ('n::linordered_idom, 'z) deck_scheme \<Rightarrow> ('n, 'z) deck_scheme" where
  "apply_call c d = (case c of None \<Rightarrow> d | Some op \<Rightarrow> nav_step op d)"

text \<open>A page at slide \<open>c\<close>, with the gesture variables at their initial 0 and no listener of \<open>init\<close> registered yet.\<close>

abbreviation page_at :: "'n::linordered_idom \<Rightarrow> 'n page" where
  "page_at c \<equiv>
     \<lparr>currentSlide = c, dom_view = fresh_view totalSlides, fullscreen = False,
      touchStartX = 0, touchEndX = 0, mouseStartX = 0, isMouseDown = False,
      tab_active = [], listening = False, tabs_wired = False,
      body_opacity = None, body_transition = None, fade_timers = 0\<rparr>"

section \<open>Frame lemmas: navigation touches only the deck part\<close>

lemma page_fields_updateSlideDisplay [simp]:
  fixes p :: "('n::linordered_idom, 'z) page_scheme"
  shows "fullscreen (updateSlideDisplay p) = fullscreen p"
    "touchStartX (updateSlideDisplay p) = touchStartX p"
    "touchEndX (updateSlideDisplay p) = touchEndX p"
    "mouseStartX (updateSlideDisplay p) = mouseStartX p"
    "isMouseDown (updateSlideDisplay p) = isMouseDown p"
    "tab_active (updateSlideDisplay p) = tab_active p"
    "listening (updateSlideDisplay p) = listening p"
    "tabs_wired (updateSlideDisplay p) = tabs_wired p"
    "body_opacity (updateSlideDisplay p) = body_opacity p"
    "fade_timers (updateSlideDisplay p) = fade_timers p"
  by (simp_all add: updateSlideDisplay_def Let_def)

lemma page_fields_nav [frame_simps]:
  fixes p :: "('n::linordered_idom, 'z) page_scheme"
  shows "fullscreen (nav_step op p) = fullscreen p"
    "touchStartX (nav_step op p) = touchStartX p"
    "touchEndX (nav_step op p) = touchEndX p"
    "mouseStartX (nav_step op p) = mouseStartX p"
    "isMouseDown (nav_step op p) = isMouseDown p"
    "tab_active (nav_step op p) = tab_active p"
    "listening (nav_step op p) = listening p"
    "tabs_wired (nav_step op p) = tabs_wired p"
    "body_opacity (nav_step op p) = body_opacity p"
    "fade_timers (nav_step op p) = fade_timers p"
    "page.more (nav_step op p) = page.more p"
  by (cases op; simp add: nextSlide_def prevSlide_def goToSlide_def updateSlideDisplay_def
      Let_def)+

lemma page_fields_nav_ops [frame_simps]:
  fixes p :: "('n::linordered_idom, 'z) page_scheme"
  shows "touchStartX (nextSlide p) = touchStartX p" "touchEndX (nextSlide p) = touchEndX p"
    "mouseStartX (nextSlide p) = mouseStartX p" "mouseStartX (prevSlide p) = mouseStartX p"
  using page_fields_nav [of Next p] page_fields_nav [of Prev p] by simp_all

lemma truncate_updateSlideDisplay:
  "deck.truncate (updateSlideDisplay d) = updateSlideDisplay (deck.truncate d)"
  by (simp add: updateSlideDisplay_def deck.truncate_def Let_def)

lemma truncate_nav_ops:
  "deck.truncate (nextSlide d) = nextSlide (deck.truncate d)"
  "deck.truncate (prevSlide d) = prevSlide (deck.truncate d)"
  "deck.truncate (goToSlide n d) = goToSlide n (deck.truncate d)"
  by (simp_all add: nextSlide_def prevSlide_def goToSlide_def truncate_updateSlideDisplay,
      simp_all add: deck.truncate_def)

lemma truncate_nav_step:
  "deck.truncate (nav_step op d) = nav_step op (deck.truncate d)"
  by (cases op) (simp_all add: truncate_nav_ops)

lemma truncate_page_updates [simp]:
  fixes p :: "('n, 'z) page_scheme"
  shows "deck.truncate (p\<lparr>touchStartX := a\<rparr>) = deck.truncate p"
    "deck.truncate (p\<lparr>touchEndX := a\<rparr>) = deck.truncate p"
    "deck.truncate (p\<lparr>mouseStartX := a\<rparr>) = deck.truncate p"
    "deck.truncate (p\<lparr>isMouseDown := b\<rparr>) = deck.truncate p"
  by (simp_all add: deck.truncate_def)

lemma touch_gesture_apply:
  fixes p :: "('n::linordered_idom, 'z) page_scheme"
  shows "deck.truncate (onTouchEnd e (onTouchStart s p)) =
           apply_call (gesture_call s e) (deck.truncate p)"
proof -
  let ?q = "p\<lparr>touchStartX := s, touchEndX := e\<rparr>"
  have q: "onTouchEnd e (onTouchStart s p) = handleSwipe ?q"
    by (simp add: onTouchEnd_def onTouchStart_def)
  consider (L) "e < s - 50" | (R) "e > s + 50" | (N) "\<not> e < s - 50" "\<not> e > s + 50"
    by linarith
  then show ?thesis
  proof cases
    case L
    then have "handleSwipe ?q = nextSlide ?q"
      by (simp add: handleSwipe_def page_fields_nav_ops)
    with L q show ?thesis
      by (simp add: gesture_call_def apply_call_def truncate_nav_ops)
  next
    case R
    then have "handleSwipe ?q = prevSlide ?q"
      by (simp add: handleSwipe_def)
    with R q show ?thesis
      by (simp add: gesture_call_def apply_call_def truncate_nav_ops)
  next
    case N
    then have "handleSwipe ?q = ?q"
      by (simp add: handleSwipe_def)
    with N q show ?thesis
      by (simp add: gesture_call_def apply_call_def)
  qed
qed

lemma handleKeyPress_state:
  "fst (handleKeyPress k p) = (case key_nav k of None \<Rightarrow> p | Some op \<Rightarrow> nav_step op p)"
  by (simp add: handleKeyPress_def key_nav_def)

lemma truncate_onMouseUp:
  "deck.truncate (onMouseUp x p) =
     (if isMouseDown p then apply_call (gesture_call (mouseStartX p) x) (deck.truncate p)
      else deck.truncate p)"
proof (cases "isMouseDown p \<and> \<bar>x - mouseStartX p\<bar> > 50")
  case True
  then show ?thesis
    by (auto simp: onMouseUp_def gesture_call_def apply_call_def truncate_nav_ops Let_def
        split: if_splits)
next
  case False
  then show ?thesis
    by (auto simp: onMouseUp_def gesture_call_def apply_call_def Let_def)
qed

lemma page_fields_onMouseUp [simp]:
  fixes p :: "('n::linordered_idom, 'z) page_scheme"
  shows "listening (onMouseUp x p) = listening p" "touchStartX (onMouseUp x p) = touchStartX p"
    "isMouseDown (onMouseUp x p) = False"
  by (simp_all add: onMouseUp_def Let_def nextSlide_def prevSlide_def)

lemma currentSlide_truncate [simp]: "currentSlide (deck.truncate d) = currentSlide d"
  by (simp add: deck.truncate_def)

lemma currentSlide_apply_call_truncate:
  "currentSlide (apply_call c (deck.truncate p)) = currentSlide (apply_call c p)"
proof (cases c)
  case (Some op)
  have "currentSlide (nav_step op (deck.truncate p)) = currentSlide (deck.truncate (nav_step op p))"
    by (simp only: truncate_nav_step)
  with Some show ?thesis by (simp add: apply_call_def)
qed (simp add: apply_call_def)

lemma currentSlide_apply_call_int:
  fixes d :: "(int, 'z) deck_scheme"
  assumes "in_deck (currentSlide d)"
  shows "currentSlide (apply_call (gesture_call s t) d) =
           (if t - s < -50 then min (currentSlide d + 1) totalSlides
            else if t - s > 50 then max (currentSlide d - 1) 1 else currentSlide d)"
  using assms by (simp add: gesture_call_def apply_call_def nextSlide_index_int prevSlide_index_int)

section \<open>Claims on the adapters\<close>

text \<open>
  C8. The keyboard handler implements the dispatch table of the specification:
  a key of the table makes its public call and suppresses the default action,
  Escape only asks the host to toggle fullscreen (entering it when no element
  is fullscreen, leaving it otherwise), and every other key changes nothing
  and lets the event propagate.
\<close>

theorem handleKeyPress_table:
  "handleKeyPress k p =
     (case key_nav k of
        Some op \<Rightarrow> (nav_step op p, [PreventDefault])
      | None \<Rightarrow> (p, if k = ''Escape'' then toggleFullscreen p else []))"
  by (simp add: handleKeyPress_def key_nav_def)

text \<open>
  C9. A touch gesture from \<open>startX\<close> to \<open>endX\<close> makes at most one public
  call, the one the specification's threshold rule chooses: \<open>next\<close> for a
  movement of more than 50 to the left, \<open>previous\<close> for more than 50 to the
  right, none otherwise. The deck part of the page changes exactly as that call
  changes it.
\<close>

theorem swipe_gesture:
  fixes p :: "('n::linordered_idom, 'z) page_scheme"
  shows "deck.truncate (onTouchEnd e (onTouchStart s p)) =
           apply_call (gesture_call s e) (deck.truncate p) \<and>
         touchStartX (onTouchEnd e (onTouchStart s p)) = s \<and>
         touchEndX (onTouchEnd e (onTouchStart s p)) = e"
proof -
  have "touchStartX (handleSwipe q) = touchStartX q \<and> touchEndX (handleSwipe q) = touchEndX q"
    for q :: "('n, 'z) page_scheme"
    by (simp add: handleSwipe_def Let_def page_fields_nav_ops prevSlide_def
        updateSlideDisplay_def)
  then show ?thesis
    using touch_gesture_apply by (simp add: onTouchEnd_def onTouchStart_def)
qed

text \<open>
  C10. The mouse-drag adapter and the touch-swipe adapter decide the same way:
  a drag armed inside a slide from \<open>startX\<close> to \<open>endX\<close> changes the deck
  exactly as a swipe with the same two coordinates does. Contrary to section 4.4
  of the specification, the two adapters do not have opposite polarity: in
  both, movement to the left by more than 50 is \<open>next\<close>.
\<close>

theorem drag_equals_swipe:
  fixes p :: "('n::linordered_idom, 'z) page_scheme"
  shows "deck.truncate (onMouseUp e (onMouseDown True s p)) =
         deck.truncate (onTouchEnd e (onTouchStart s p))"
proof -
  let ?q = "p\<lparr>mouseStartX := s, isMouseDown := True\<rparr>"
  have down: "onMouseDown True s p = ?q"
    by (simp add: onMouseDown_def)
  have tq: "deck.truncate ?q = deck.truncate p"
    by (simp add: deck.truncate_def)
  have "deck.truncate (onMouseUp e ?q) = apply_call (gesture_call s e) (deck.truncate ?q)"
    by (simp add: truncate_onMouseUp)
  then show ?thesis
    using down tq by (simp add: touch_gesture_apply)
qed

text \<open>
  C11. A mouse-up always leaves the drag adapter disarmed, and a mouse-up with
  no armed drag changes nothing else: a release never navigates unless a
  press inside a slide armed the gesture since the last release.
\<close>

theorem mouseUp_disarms:
  fixes p :: "('n::linordered_idom, 'z) page_scheme"
  shows "\<not> isMouseDown (onMouseUp x p) \<and> (\<not> isMouseDown p \<longrightarrow> onMouseUp x p = p)"
  by (simp add: onMouseUp_def Let_def)

theorem mouseUp_disarms_witness:
  "\<not> isMouseDown (onMouseUp 300 (page_at (4::int))) \<and>
   onMouseUp 300 (page_at (4::int)) = page_at 4"
  using mouseUp_disarms [of 300 "page_at (4::int)"] by simp


text \<open>
  C23. Bounds of a swipe on a page whose index is a slide number: the new
  index stays between 1 and \<open>totalSlides\<close> and differs from the old one by
  at most 1; it changes only if the finger moved strictly more than 50
  horizontally (a movement of exactly 50 is noise), and on a slide other than
  the first and the last it changes exactly then.
\<close>

theorem swipe_threshold_bounds:
  fixes p :: "(int, 'z) page_scheme"
  assumes "in_deck (currentSlide p)"
  shows "1 \<le> currentSlide (onTouchEnd t (onTouchStart s p)) \<and>
         currentSlide (onTouchEnd t (onTouchStart s p)) \<le> totalSlides \<and>
         \<bar>currentSlide (onTouchEnd t (onTouchStart s p)) - currentSlide p\<bar> \<le> 1 \<and>
         (currentSlide (onTouchEnd t (onTouchStart s p)) \<noteq> currentSlide p \<longrightarrow> 50 < \<bar>t - s\<bar>) \<and>
         (1 < currentSlide p \<and> currentSlide p < totalSlides \<longrightarrow>
            (currentSlide (onTouchEnd t (onTouchStart s p)) \<noteq> currentSlide p \<longleftrightarrow> 50 < \<bar>t - s\<bar>))"
proof -
  have "currentSlide (onTouchEnd t (onTouchStart s p)) =
          currentSlide (apply_call (gesture_call s t) (deck.truncate p))"
    by (simp only: touch_gesture_apply [symmetric] currentSlide_truncate)
  also have "\<dots> = (if t - s < -50 then min (currentSlide p + 1) totalSlides
                   else if t - s > 50 then max (currentSlide p - 1) 1 else currentSlide p)"
    using assms(1) by (simp add: currentSlide_apply_call_truncate currentSlide_apply_call_int)
  finally show ?thesis
    using in_deck_bounds [OF assms(1)] by (auto simp: totalSlides_int)
qed

theorem swipe_threshold_bounds_witness:
  "currentSlide (onTouchEnd 250 (onTouchStart 300 (page_at (4::int)))) = 4 \<and>
   currentSlide (onTouchEnd 249 (onTouchStart 300 (page_at (4::int)))) = 5"
proof -
  have d: "in_deck (4::int)" by (simp add: in_deck_int_iff totalSlides_def)
  have a: "currentSlide (onTouchEnd 250 (onTouchStart 300 (page_at (4::int)))) = 4"
    using swipe_threshold_bounds [of "page_at (4::int)" 250 300] d by simp
  have "currentSlide (onTouchEnd 249 (onTouchStart 300 (page_at (4::int)))) \<noteq> 4"
    using swipe_threshold_bounds [of "page_at (4::int)" 249 300] d by (simp add: totalSlides_def)
  moreover have "currentSlide (onTouchEnd 249 (onTouchStart 300 (page_at (4::int)))) \<le> 5"
    using swipe_threshold_bounds [of "page_at (4::int)" 249 300] d by (simp add: abs_le_iff)
  moreover have "currentSlide (onTouchEnd 249 (onTouchStart 300 (page_at (4::int)))) \<ge> 4"
    by (simp add: onTouchEnd_def onTouchStart_def handleSwipe_def nextSlide_def totalSlides_def)
  ultimately show ?thesis using a by linarith
qed

end
