(* ===== verification/Page.thy ===== *)
theory Page
  imports Input
begin

text \<open>
  The whole page as an event-driven machine: the \<open>DOMContentLoaded\<close> handler
  with \<open>init\<close> and \<open>initDemoInteraction\<close> (lines 12--36, 119--127, 196--207),
  the visibility handler (lines 164--173), the context-menu and resize
  listeners, \<open>printSlides\<close>, and the console calls of the exported functions.
  \<open>dispatch\<close> delivers one event to the listeners registered at that moment and
  returns the new page and the host effects, or the JavaScript error a listener
  throws. Listeners run to completion one at a time, so a run is a list of
  events. \<open>reachable\<close> collects the states the page can be in, and the
  invariant of the page is proved over it by rule induction, and so is the
  bracketing of the fade-in (\<open>fade_inv\<close>). Runs keep the shape of the DOM
  (\<open>dom_shape\<close>), and invalid input is rejected without a trace.
\<close>

section \<open>Events, errors and handlers\<close>

datatype js_error = ReferenceError string

datatype 'n event =
    DOMContentLoaded
  | KeyDown key
  | TouchStart 'n
  | TouchEnd 'n
  | MouseDown bool 'n
  | MouseUp 'n
  | ContextMenu
  | VisibilityChange bool
  | Resize
  | TabClick nat
  | Call "'n nav_op"
  | PrintCall
  | FullscreenChange bool
  | FadeTimer

text \<open>
  \<open>init\<close>: show the total, render, register the keyboard listener, reset the
  closure variables of the touch adapter and register its listeners.
\<close>

definition init :: "('n::linordered_idom, 'z) page_scheme \<Rightarrow> ('n, 'z) page_scheme" where
  "init p =
     (let p1 = p\<lparr>dom_view := (dom_view p)\<lparr>total_text := totalSlides\<rparr>\<rparr>;
          p2 = updateSlideDisplay p1
      in p2\<lparr>listening := True, touchStartX := 0, touchEndX := 0\<rparr>)"

definition initDemoInteraction :: "('n, 'z) page_scheme \<Rightarrow> ('n, 'z) page_scheme" where
  "initDemoInteraction p = p\<lparr>tabs_wired := True\<rparr>"

text \<open>The click listener of tab \<open>i\<close>: clear \<open>active\<close> on every tab, set it on tab \<open>i\<close>.\<close>

definition tabClick :: "nat \<Rightarrow> ('n, 'z) page_scheme \<Rightarrow> ('n, 'z) page_scheme" where
  "tabClick i p = p\<lparr>tab_active := map (\<lambda>j. j = i) [0..<length (tab_active p)]\<rparr>"

text \<open>
  The \<open>DOMContentLoaded\<close> listener (lines 196--207): \<open>init\<close>,
  \<open>initDemoInteraction\<close>, then the fade-in: the body becomes transparent,
  gets its transition, and a callback is scheduled with \<open>setTimeout\<close>.
\<close>

definition onDOMContentLoaded ::
  "('n::linordered_idom, 'z) page_scheme \<Rightarrow> ('n, 'z) page_scheme" where
  "onDOMContentLoaded p =
     (let p1 = initDemoInteraction (init p)
      in p1\<lparr>body_opacity := Some ''0'', body_transition := Some ''opacity 0.5s ease-in-out'',
            fade_timers := Suc (fade_timers p1)\<rparr>)"

text \<open>The \<open>setTimeout\<close> callback of the fade-in (lines 204--206).\<close>

definition fadeIn :: "('n, 'z) page_scheme \<Rightarrow> ('n, 'z) page_scheme" where
  "fadeIn p = p\<lparr>body_opacity := Some ''1''\<rparr>"

text \<open>
  \<open>stopAutoPlay\<close> is called but defined nowhere in the script (auto-play was
  removed, line 161): evaluating the call throws a \<open>ReferenceError\<close>.
\<close>

definition handleVisibilityChange ::
  "bool \<Rightarrow> ('n, 'z) page_scheme \<Rightarrow> js_error + ('n, 'z) page_scheme" where
  "handleVisibilityChange hidden p =
     (if hidden then Inl (ReferenceError ''stopAutoPlay'') else Inr p)"

definition printSlides :: "effect list" where
  "printSlides = [Print]"

text \<open>
  Keyboard, touch and tab listeners exist only once the \<open>DOMContentLoaded\<close>
  handler has run; the mouse, context-menu, visibility and resize listeners and
  the global functions exist from the moment the script is loaded. A tab click
  targets an existing tab. \<open>FullscreenChange\<close> is the host entering or leaving
  fullscreen, which the script only requests. \<open>FadeTimer\<close> is the host
  running a pending \<open>setTimeout\<close> callback of the fade-in; with none pending
  there is nothing to run.
\<close>

fun dispatch ::
  "'n event \<Rightarrow> ('n::linordered_idom, 'z) page_scheme \<Rightarrow>
   js_error + (('n, 'z) page_scheme \<times> effect list)" where
  "dispatch DOMContentLoaded p = Inr (onDOMContentLoaded p, [])"
| "dispatch (KeyDown k) p = Inr (if listening p then handleKeyPress k p else (p, []))"
| "dispatch (TouchStart x) p = Inr (if listening p then onTouchStart x p else p, [])"
| "dispatch (TouchEnd x) p = Inr (if listening p then onTouchEnd x p else p, [])"
| "dispatch (MouseDown inSlide x) p = Inr (onMouseDown inSlide x p, [])"
| "dispatch (MouseUp x) p = Inr (onMouseUp x p, [])"
| "dispatch ContextMenu p = Inr (p, [PreventDefault])"
| "dispatch (VisibilityChange hidden) p =
     (case handleVisibilityChange hidden p of Inl err \<Rightarrow> Inl err | Inr q \<Rightarrow> Inr (q, []))"
| "dispatch Resize p = Inr (p, [])"
| "dispatch (TabClick i) p =
     Inr (if tabs_wired p \<and> i < length (tab_active p) then tabClick i p else p, [])"
| "dispatch (Call op) p = Inr (nav_step op p, [])"
| "dispatch PrintCall p = Inr (p, printSlides)"
| "dispatch (FullscreenChange b) p = Inr (p\<lparr>fullscreen := b\<rparr>, [])"
| "dispatch FadeTimer p =
     Inr (if 0 < fade_timers p then fadeIn (p\<lparr>fade_timers := fade_timers p - 1\<rparr>) else p, [])"

text \<open>A run delivers the events in order; a listener that throws leaves the state as it was.\<close>

fun run :: "'n event list \<Rightarrow> ('n::linordered_idom, 'z) page_scheme \<Rightarrow> ('n, 'z) page_scheme" where
  "run [] p = p"
| "run (e # es) p = run es (case dispatch e p of Inl _ \<Rightarrow> p | Inr (q, _) \<Rightarrow> q)"

section \<open>Reachable states\<close>

text \<open>
  When the script has been evaluated, \<open>currentSlide = 1\<close>, the mouse adapter is
  disarmed, no listener of \<open>init\<close> exists yet, and the DOM is whatever the
  markup says (\<open>v\<close>, with tab flags \<open>tabs\<close>). \<open>DOMContentLoaded\<close> fires once.
\<close>

definition loaded :: "'n::linordered_idom view \<Rightarrow> bool list \<Rightarrow> 'n page" where
  "loaded v tabs =
     \<lparr>currentSlide = 1, dom_view = v, fullscreen = False,
      touchStartX = 0, touchEndX = 0, mouseStartX = 0, isMouseDown = False,
      tab_active = tabs, listening = False, tabs_wired = False,
      body_opacity = None, body_transition = None, fade_timers = 0\<rparr>"

definition fires :: "'n event \<Rightarrow> ('n, 'z) page_scheme \<Rightarrow> bool" where
  "fires e p \<longleftrightarrow> e \<noteq> DOMContentLoaded \<or> \<not> listening p"

inductive reachable :: "('n::linordered_idom) page \<Rightarrow> bool" where
  start: "reachable (loaded v tabs)"
| step: "reachable p \<Longrightarrow> fires e p \<Longrightarrow> dispatch e p = Inr (q, effs) \<Longrightarrow> reachable q"

definition page_inv :: "int page \<Rightarrow> bool" where
  "page_inv p \<longleftrightarrow>
     in_deck (currentSlide p) \<and>
     (listening p \<longrightarrow> rendered p \<and> total_text (dom_view p) = totalSlides)"

text \<open>
  The shape of the DOM the script touches: how many \<open>.slide\<close>,
  \<open>.indicator\<close> and \<open>.demo-tab\<close> nodes there are. The script toggles classes
  and writes text but never creates or removes a node.
\<close>

definition dom_shape :: "('n, 'z) page_scheme \<Rightarrow> nat \<times> nat \<times> nat" where
  "dom_shape p =
     (length (slide_active (dom_view p)), length (indicator_active (dom_view p)),
      length (tab_active p))"

text \<open>
  The lifecycle part of a page: whether \<open>init\<close> has registered its
  listeners, the body's inline opacity, and the pending fade-in callbacks.
  Between \<open>DOMContentLoaded\<close> and the callback the body is transparent;
  afterwards it is opaque; before, the script has not touched it.
\<close>

definition lifecycle :: "('n, 'z) page_scheme \<Rightarrow> bool \<times> string option \<times> nat" where
  "lifecycle p = (listening p, body_opacity p, fade_timers p)"

definition fade_inv :: "('n, 'z) page_scheme \<Rightarrow> bool" where
  "fade_inv p \<longleftrightarrow>
     lifecycle p \<in> {(False, None, 0), (True, Some ''0'', 1), (True, Some ''1'', 0)}"

definition input_event :: "'n event \<Rightarrow> bool" where
  "input_event e \<longleftrightarrow> e \<noteq> DOMContentLoaded \<and> e \<noteq> FadeTimer"

section \<open>The page invariant is kept by every handler\<close>

lemma page_inv_updates [simp]:
  fixes p :: "int page"
  shows "page_inv (p\<lparr>touchStartX := x\<rparr>) = page_inv p"
    "page_inv (p\<lparr>touchEndX := x\<rparr>) = page_inv p"
    "page_inv (p\<lparr>mouseStartX := x\<rparr>) = page_inv p"
    "page_inv (p\<lparr>isMouseDown := b\<rparr>) = page_inv p"
    "page_inv (p\<lparr>fullscreen := b\<rparr>) = page_inv p"
    "page_inv (p\<lparr>tab_active := ts\<rparr>) = page_inv p"
    "page_inv (p\<lparr>tabs_wired := b\<rparr>) = page_inv p"
    "page_inv (p\<lparr>body_opacity := v\<rparr>) = page_inv p"
    "page_inv (p\<lparr>body_transition := v\<rparr>) = page_inv p"
    "page_inv (p\<lparr>fade_timers := m\<rparr>) = page_inv p"
  by (simp_all add: page_inv_def rendered_iff)

lemma deck_fields_nav_ops [simp]:
  fixes p :: "('n::linordered_idom, 'z) page_scheme"
  shows "listening (nextSlide p) = listening p" "listening (prevSlide p) = listening p"
    "listening (goToSlide n p) = listening p"
    "total_text (dom_view (nextSlide p)) = total_text (dom_view p)"
    "total_text (dom_view (prevSlide p)) = total_text (dom_view p)"
    "total_text (dom_view (goToSlide n p)) = total_text (dom_view p)"
  by (simp_all add: nextSlide_def prevSlide_def goToSlide_def updateSlideDisplay_def Let_def)

lemma page_inv_nav:
  fixes p :: "int page"
  assumes "page_inv p"
  shows "page_inv (nextSlide p)" "page_inv (prevSlide p)" "page_inv (goToSlide n p)"
  using assms
  by (auto simp: page_inv_def in_deck_nextSlide in_deck_prevSlide in_deck_goToSlide_int
      rendered_nav)

lemma page_inv_handleKeyPress:
  "page_inv p \<Longrightarrow> page_inv (fst (handleKeyPress k p))"
  by (simp add: handleKeyPress_def page_inv_nav)

lemma page_inv_handleSwipe:
  "page_inv p \<Longrightarrow> page_inv (handleSwipe p)"
  by (simp add: handleSwipe_def Let_def page_inv_nav)

lemma page_inv_onMouseUp:
  "page_inv p \<Longrightarrow> page_inv (onMouseUp x p)"
  by (simp add: onMouseUp_def Let_def page_inv_nav)

lemma page_inv_onDOMContentLoaded:
  "in_deck (currentSlide p) \<Longrightarrow> page_inv (onDOMContentLoaded p)"
  by (simp add: page_inv_def onDOMContentLoaded_def initDemoInteraction_def init_def Let_def
      rendered_iff view_updateSlideDisplay)

lemma page_inv_nav_step: "page_inv p \<Longrightarrow> page_inv (nav_step op p)"
  by (cases op) (simp_all add: page_inv_nav)

lemma page_inv_in_deck: "page_inv p \<Longrightarrow> in_deck (currentSlide p)"
  by (simp add: page_inv_def)

lemma page_inv_dispatch:
  fixes p :: "int page"
  assumes "page_inv p" and "dispatch e p = Inr (q, effs)"
  shows "page_inv q"
proof -
  have key: "handleKeyPress k p = (q', es) \<Longrightarrow> page_inv q'" for k q' es
    using page_inv_handleKeyPress [OF assms(1), of k] by simp
  have init: "page_inv (onDOMContentLoaded p)"
    using page_inv_in_deck [OF assms(1)] by (rule page_inv_onDOMContentLoaded)
  show ?thesis
    using assms key init
    by (cases e) (auto simp: page_inv_handleSwipe page_inv_onMouseUp page_inv_nav_step
        onTouchStart_def onTouchEnd_def onMouseDown_def tabClick_def handleVisibilityChange_def
        fadeIn_def split: if_splits prod.splits)
qed

lemma page_inv_loaded: "page_inv (loaded v tabs)"
  by (simp add: page_inv_def loaded_def in_deck_int_iff totalSlides_def)

lemma reachable_page_inv_lemma: "reachable p \<Longrightarrow> page_inv p"
proof (induction rule: reachable.induct)
  case (start v tabs)
  show ?case by (rule page_inv_loaded)
next
  case (step p e q effs)
  then show ?case by (blast intro: page_inv_dispatch)
qed

lemma tab_flags_single:
  "i < n \<Longrightarrow> count_list (map (\<lambda>j. j = i) [0..<n]) True = 1"
  using count_list_map_upt_eq [of id i 0 n] by simp

lemma reachable_run_step:
  assumes "reachable p" and "fires e p"
  shows "reachable (run [e] p)"
proof (cases "dispatch e p")
  case (Inl err)
  with assms(1) show ?thesis by simp
next
  case (Inr r)
  obtain q effs where r: "r = (q, effs)" by (cases r)
  from reachable.step [OF assms] Inr r show ?thesis by simp
qed

lemma reachable_dispatch_KeyDown:
  "reachable p \<Longrightarrow> reachable (run [KeyDown k] p)"
  by (rule reachable_run_step) (simp_all add: fires_def)

lemma run_KeyDown_listening:
  "listening p \<Longrightarrow> run [KeyDown k] p = fst (handleKeyPress k p)"
  by (simp add: case_prod_unfold)

lemma page_inv_deck_inv: "page_inv p \<Longrightarrow> listening p \<Longrightarrow> deck_inv p"
  by (simp add: page_inv_def deck_inv_def)

lemma dom_shape_updates [simp]:
  "dom_shape (p\<lparr>touchStartX := x\<rparr>) = dom_shape p"
  "dom_shape (p\<lparr>touchEndX := x\<rparr>) = dom_shape p"
  "dom_shape (p\<lparr>mouseStartX := x\<rparr>) = dom_shape p"
  "dom_shape (p\<lparr>isMouseDown := b\<rparr>) = dom_shape p"
  "dom_shape (p\<lparr>fullscreen := b\<rparr>) = dom_shape p"
  "dom_shape (tabClick i p) = dom_shape p"
  "dom_shape (p\<lparr>body_opacity := v\<rparr>) = dom_shape p"
  "dom_shape (p\<lparr>fade_timers := m\<rparr>) = dom_shape p"
  by (simp_all add: dom_shape_def tabClick_def)

lemma dom_shape_nav [simp]:
  fixes p :: "('n::linordered_idom, 'z) page_scheme"
  shows "dom_shape (nextSlide p) = dom_shape p" "dom_shape (prevSlide p) = dom_shape p"
    "dom_shape (goToSlide n p) = dom_shape p" "dom_shape (nav_step op p) = dom_shape p"
  by (simp_all add: dom_shape_def nextSlide_def prevSlide_def goToSlide_def)
    (cases op; simp add: dom_shape_def nextSlide_def prevSlide_def goToSlide_def)

lemma dom_shape_handlers [simp]:
  fixes p :: "('n::linordered_idom, 'z) page_scheme"
  shows "dom_shape (fst (handleKeyPress k p)) = dom_shape p"
    "dom_shape (onTouchEnd x p) = dom_shape p"
    "dom_shape (onMouseUp x p) = dom_shape p"
    "dom_shape (onDOMContentLoaded p) = dom_shape p"
  by (simp_all add: handleKeyPress_def onTouchEnd_def handleSwipe_def onMouseUp_def Let_def)
    (simp add: dom_shape_def onDOMContentLoaded_def init_def initDemoInteraction_def Let_def)


lemma lifecycle_nav_ops [simp]:
  fixes p :: "('n::linordered_idom, 'z) page_scheme"
  shows "lifecycle (nextSlide p) = lifecycle p" "lifecycle (prevSlide p) = lifecycle p"
    "lifecycle (goToSlide n p) = lifecycle p" "lifecycle (nav_step op p) = lifecycle p"
  by (simp_all add: lifecycle_def nextSlide_def prevSlide_def goToSlide_def page_fields_nav)

lemma lifecycle_updates [simp]:
  "lifecycle (p\<lparr>touchStartX := x\<rparr>) = lifecycle p"
  "lifecycle (p\<lparr>touchEndX := x\<rparr>) = lifecycle p"
  "lifecycle (p\<lparr>mouseStartX := x\<rparr>) = lifecycle p"
  "lifecycle (p\<lparr>isMouseDown := b\<rparr>) = lifecycle p"
  "lifecycle (p\<lparr>fullscreen := b\<rparr>) = lifecycle p"
  "lifecycle (tabClick i p) = lifecycle p"
  by (simp_all add: lifecycle_def tabClick_def)

lemma lifecycle_handlers [simp]:
  fixes p :: "('n::linordered_idom, 'z) page_scheme"
  shows "lifecycle (fst (handleKeyPress k p)) = lifecycle p"
    "lifecycle (onTouchEnd x p) = lifecycle p"
    "lifecycle (onMouseUp x p) = lifecycle p"
  by (simp_all add: handleKeyPress_def onTouchEnd_def handleSwipe_def onMouseUp_def Let_def
      split: if_split)

lemma lifecycle_dispatch:
  fixes p :: "('n::linordered_idom, 'z) page_scheme"
  assumes "dispatch e p = Inr (q, effs)" and "input_event e"
  shows "lifecycle q = lifecycle p"
proof (cases e)
  case (KeyDown k)
  with assms have "q = (if listening p then fst (handleKeyPress k p) else p)"
    by (auto simp: prod_eq_iff)
  with KeyDown show ?thesis by simp
qed (use assms in \<open>auto simp: input_event_def onTouchStart_def onMouseDown_def
      handleVisibilityChange_def split: if_splits sum.splits\<close>)

lemma lifecycle_run:
  fixes p :: "('n::linordered_idom, 'z) page_scheme"
  shows "\<forall>e \<in> set es. input_event e \<Longrightarrow> lifecycle (run es p) = lifecycle p"
proof (induction es arbitrary: p)
  case (Cons e es)
  have "lifecycle (case dispatch e p of Inl _ \<Rightarrow> p | Inr (q, _) \<Rightarrow> q) = lifecycle p"
    using Cons.prems by (auto split: sum.split dest: lifecycle_dispatch)
  with Cons show ?case by simp
qed simp

lemma lifecycle_onDOMContentLoaded:
  "lifecycle (onDOMContentLoaded p) = (True, Some ''0'', Suc (fade_timers p))"
  by (simp add: lifecycle_def onDOMContentLoaded_def init_def initDemoInteraction_def Let_def)

lemma fade_inv_dispatch:
  fixes p :: "('n::linordered_idom) page"
  assumes "fade_inv p" and "fires e p" and "dispatch e p = Inr (q, effs)"
  shows "fade_inv q"
proof -
  consider "e = DOMContentLoaded" | "e = FadeTimer" | "input_event e"
    unfolding input_event_def by blast
  then show ?thesis
  proof cases
    case 1
    with assms have "fade_timers p = 0" and "q = onDOMContentLoaded p"
      by (auto simp: fade_inv_def fires_def lifecycle_def)
    then show ?thesis
      by (simp add: fade_inv_def lifecycle_onDOMContentLoaded)
  next
    case 2
    with assms(3) have "q = (if 0 < fade_timers p then fadeIn (p\<lparr>fade_timers := fade_timers p - 1\<rparr>) else p)"
      by simp
    with assms(1) show ?thesis
      by (auto simp: fade_inv_def lifecycle_def fadeIn_def)
  next
    case 3
    with assms show ?thesis by (simp add: fade_inv_def lifecycle_dispatch)
  qed
qed

lemma run_append: "run (xs @ ys) p = run ys (run xs p)"
  by (induction xs arbitrary: p) simp_all

section \<open>Claims on the page\<close>

text \<open>
  C1. In every state the page can reach (script loaded, \<open>DOMContentLoaded\<close>
  fired at most once, any interleaving of user input, console calls with
  integer arguments and host events), the index is a slide number between 1
  and \<open>totalSlides\<close>, and once \<open>init\<close> has run the DOM shows it: slide and
  indicator flags, counter, total and button states all agree with the index.
\<close>

theorem reachable_page_inv:
  fixes p :: "int page"
  assumes "reachable p"
  shows "1 \<le> currentSlide p \<and> currentSlide p \<le> totalSlides \<and>
         (listening p \<longrightarrow> rendered p \<and> total_text (dom_view p) = totalSlides)"
  using reachable_page_inv_lemma [OF assms]
  by (simp add: page_inv_def in_deck_int_iff)

theorem reachable_page_inv_witness:
  "1 \<le> currentSlide (onDOMContentLoaded (loaded (fresh_view totalSlides) [] :: int page)) \<and>
   listening (onDOMContentLoaded (loaded (fresh_view totalSlides) [] :: int page)) \<and>
   rendered (onDOMContentLoaded (loaded (fresh_view totalSlides) [] :: int page))"
proof -
  let ?p = "loaded (fresh_view totalSlides) [] :: int page"
  have "reachable (onDOMContentLoaded ?p)"
    by (rule reachable.step [OF reachable.start, where e = DOMContentLoaded and effs = "[]"])
      (simp_all add: fires_def loaded_def)
  then show ?thesis
    using reachable_page_inv [of "onDOMContentLoaded ?p"]
    by (simp add: onDOMContentLoaded_def initDemoInteraction_def init_def Let_def)
qed




text \<open>
  C13. Once the demo tabs are wired, a click on tab \<open>i\<close> leaves exactly one
  tab active, tab \<open>i\<close>, keeps the number of tabs, and does not touch the deck.
\<close>

theorem tabClick_exactly_one:
  assumes "tabs_wired p" and "i < length (tab_active p)"
    and "dispatch (TabClick i) p = Inr (q, effs)"
  shows "count_list (tab_active q) True = 1 \<and> tab_active q ! i \<and>
         length (tab_active q) = length (tab_active p) \<and> deck.truncate q = deck.truncate p"
  using assms by (auto simp: tabClick_def tab_flags_single deck.truncate_def)

theorem tabClick_exactly_one_witness:
  "count_list (tab_active (tabClick 2 ((page_at (4::int))\<lparr>tab_active := [True, False, False],
      tabs_wired := True\<rparr>))) True = 1"
  using tabClick_exactly_one [of "(page_at (4::int))\<lparr>tab_active := [True, False, False],
      tabs_wired := True\<rparr>" 2] by simp




text \<open>
  C25. Invalid input is rejected silently, as section 7 of the specification
  requires: a key outside the table (other than Escape) leaves the page as it
  is with no host effect and lets the event propagate, a \<open>goToSlide\<close> call
  with a target outside the deck leaves the page as it is, and a touch
  gesture of at most 50 only records its end coordinate. None of them raises.
\<close>

theorem invalid_input_ignored:
  fixes p :: "('n::linordered_idom, 'z) page_scheme"
  shows "(key_nav k = (None :: 'n nav_op option) \<and> k \<noteq> ''Escape'' \<longrightarrow>
            dispatch (KeyDown k) p = Inr (p, [])) \<and>
         (\<not> (1 \<le> n \<and> n \<le> totalSlides) \<longrightarrow> dispatch (Call (GoTo n)) p = Inr (p, [])) \<and>
         (\<bar>t - touchStartX p\<bar> \<le> 50 \<longrightarrow>
            dispatch (TouchEnd t) p = Inr (if listening p then p\<lparr>touchEndX := t\<rparr> else p, []))"
proof (intro conjI impI)
  assume "key_nav k = (None :: 'n nav_op option) \<and> k \<noteq> ''Escape''"
  then show "dispatch (KeyDown k) p = Inr (p, [])"
    by (simp add: handleKeyPress_def key_nav_def split: if_splits)
next
  assume "\<not> (1 \<le> n \<and> n \<le> totalSlides)"
  then show "dispatch (Call (GoTo n)) p = Inr (p, [])"
    by (simp add: goToSlide_reject)
next
  assume "\<bar>t - touchStartX p\<bar> \<le> 50"
  then show "dispatch (TouchEnd t) p = Inr (if listening p then p\<lparr>touchEndX := t\<rparr> else p, [])"
    by (simp add: onTouchEnd_def handleSwipe_def Let_def)
qed

theorem invalid_input_ignored_witness:
  "dispatch (KeyDown ''x'') (page_at (3::int)\<lparr>listening := True\<rparr>) =
     Inr (page_at 3\<lparr>listening := True\<rparr>, []) \<and>
   dispatch (Call (GoTo 9)) (page_at (3::int)) = Inr (page_at 3, []) \<and>
   dispatch (TouchEnd 40) (page_at (3::int)\<lparr>listening := True\<rparr>) =
     Inr (page_at 3\<lparr>listening := True, touchEndX := 40\<rparr>, [])"
proof -
  have "key_nav ''x'' = (None :: int nav_op option)" by (simp add: key_nav_def)
  moreover have "\<not> (1 \<le> (9::int) \<and> 9 \<le> (totalSlides :: int))" by (simp add: totalSlides_def)
  ultimately show ?thesis
    using invalid_input_ignored [of "''x''" "page_at (3::int)\<lparr>listening := True\<rparr>" 9 40]
      invalid_input_ignored [of "''x''" "page_at (3::int)" 9 40]
    by simp
qed


text \<open>
  C27. The fade-in of the \<open>DOMContentLoaded\<close> handler is well-bracketed on
  every reachable page: before the handler the script has not touched the
  body and no callback is pending; from the handler to its \<open>setTimeout\<close>
  callback the body is transparent with exactly one callback pending; after
  the callback it is opaque and nothing is pending.
\<close>

theorem reachable_fade_inv:
  "reachable p \<Longrightarrow> fade_inv p"
proof (induction rule: reachable.induct)
  case (start v tabs)
  show ?case by (simp add: fade_inv_def lifecycle_def loaded_def)
next
  case (step p e q effs)
  from step.IH step.hyps(2,3) show ?case by (rule fade_inv_dispatch)
qed

theorem reachable_fade_inv_witness:
  "fade_inv (run [KeyDown ''End''] (onDOMContentLoaded (loaded (fresh_view totalSlides) [] :: int page)))"
proof -
  let ?p = "onDOMContentLoaded (loaded (fresh_view totalSlides) [] :: int page)"
  have "reachable ?p"
    by (rule reachable.step [OF reachable.start, where e = DOMContentLoaded and effs = "[]"])
      (simp_all add: fires_def loaded_def)
  then have "reachable (run [KeyDown ''End''] ?p)"
    by (rule reachable_dispatch_KeyDown)
  then show ?thesis by (rule reachable_fade_inv)
qed

text \<open>
  C28. Ordering of the fade-in against user input: whatever input events
  (keys, touches, mouse, tabs, console calls, host reports) arrive between
  \<open>DOMContentLoaded\<close> and the fade-in callback, they are handled while the
  body is still transparent, and the callback then makes it opaque and leaves
  nothing pending; the input neither cancels nor repeats the fade-in.
\<close>

theorem fade_in_completes:
  fixes v :: "'n::linordered_idom view"
  assumes "\<forall>e \<in> set es. input_event e"
  shows "body_opacity (run (DOMContentLoaded # es) (loaded v ts)) = Some ''0'' \<and>
         listening (run (DOMContentLoaded # es) (loaded v ts)) \<and>
         body_opacity (run (DOMContentLoaded # es @ [FadeTimer]) (loaded v ts)) = Some ''1'' \<and>
         fade_timers (run (DOMContentLoaded # es @ [FadeTimer]) (loaded v ts)) = 0"
proof -
  let ?q = "run (DOMContentLoaded # es) (loaded v ts)"
  have "lifecycle ?q = lifecycle (onDOMContentLoaded (loaded v ts))"
    using lifecycle_run [OF assms] by simp
  also have "\<dots> = (True, Some ''0'', 1)"
    by (simp add: lifecycle_onDOMContentLoaded loaded_def)
  finally have l: "listening ?q" "body_opacity ?q = Some ''0''" "fade_timers ?q = 1"
    by (simp_all add: lifecycle_def)
  have "run (DOMContentLoaded # es @ [FadeTimer]) (loaded v ts) = run [FadeTimer] ?q"
    by (simp only: append_Cons [symmetric] run_append)
  with l show ?thesis
    by (simp add: fadeIn_def)
qed

theorem fade_in_completes_witness:
  "currentSlide (run [DOMContentLoaded, KeyDown ''ArrowRight''] (loaded (fresh_view totalSlides) [] :: int page)) = 2 \<and>
   body_opacity (run [DOMContentLoaded, KeyDown ''ArrowRight''] (loaded (fresh_view totalSlides) [] :: int page)) = Some ''0'' \<and>
   body_opacity (run [DOMContentLoaded, KeyDown ''ArrowRight'', FadeTimer] (loaded (fresh_view totalSlides) [] :: int page)) = Some ''1''"
proof -
  have "\<forall>e \<in> set [KeyDown ''ArrowRight'']. input_event (e :: int event)"
    by (simp add: input_event_def)
  from fade_in_completes [OF this, of "fresh_view totalSlides" "[]"]
  have "body_opacity (run [DOMContentLoaded, KeyDown ''ArrowRight''] (loaded (fresh_view totalSlides) [] :: int page)) = Some ''0'' \<and>
        body_opacity (run [DOMContentLoaded, KeyDown ''ArrowRight'', FadeTimer] (loaded (fresh_view totalSlides) [] :: int page)) = Some ''1''"
    by (simp only: append_Cons append_Nil)
  moreover have "currentSlide (run [DOMContentLoaded, KeyDown ''ArrowRight''] (loaded (fresh_view totalSlides) [] :: int page)) = 2"
    by (simp add: onDOMContentLoaded_def init_def initDemoInteraction_def handleKeyPress_def
        nextSlide_def loaded_def Let_def totalSlides_def)
  ultimately show ?thesis by blast
qed


end
