(* ===== verification/Host.thy ===== *)
theory Host
  imports Page
begin

text \<open>
  The page's side of the host interface (section 6 of the specification and
  the \<open>HostControls\<close> of its design notes): the script asks the host to
  enter or leave fullscreen (\<open>toggleFullscreen\<close>, lines 110--116) and to
  print (\<open>printSlides\<close>, lines 176--178), and reads the host's fullscreen
  state, which only the host changes (the \<open>FullscreenChange\<close> event).
  \<open>last_report\<close> is the host's fullscreen state along a run and
  \<open>run_trace\<close> the requests a run makes, in order. What the host does with a
  request is outside the script.
\<close>

section \<open>Host state and requests along a run\<close>

text \<open>
  The host's view of fullscreen along a run: the value of its last
  \<open>FullscreenChange\<close> report, or the initial one when there is none.
\<close>

fun last_report :: "'n event list \<Rightarrow> bool \<Rightarrow> bool" where
  "last_report [] f = f"
| "last_report (FullscreenChange b # es) f = last_report es b"
| "last_report (_ # es) f = last_report es f"

text \<open>The host effects a run asks for, in order; a listener that throws asks for none.\<close>

fun run_trace :: "'n event list \<Rightarrow> ('n::linordered_idom, 'z) page_scheme \<Rightarrow> effect list" where
  "run_trace [] p = []"
| "run_trace (e # es) p =
     (case dispatch e p of Inl _ \<Rightarrow> run_trace es p | Inr (q, effs) \<Rightarrow> effs @ run_trace es q)"

definition fullscreen_requests :: "effect list \<Rightarrow> nat" where
  "fullscreen_requests effs = count_list effs RequestFullscreen + count_list effs ExitFullscreen"

section \<open>Frame and counting lemmas\<close>

lemma fullscreen_nav_ops [simp]:
  fixes p :: "('n::linordered_idom, 'z) page_scheme"
  shows "fullscreen (nextSlide p) = fullscreen p" "fullscreen (prevSlide p) = fullscreen p"
    "fullscreen (goToSlide n p) = fullscreen p"
  using page_fields_nav(1) [of Next p] page_fields_nav(1) [of Prev p]
    page_fields_nav(1) [of "GoTo n" p] by simp_all

lemma fullscreen_handlers [simp]:
  fixes p :: "('n::linordered_idom, 'z) page_scheme"
  shows "fullscreen (fst (handleKeyPress k p)) = fullscreen p"
    "fullscreen (onTouchEnd x p) = fullscreen p"
    "fullscreen (onMouseUp x p) = fullscreen p"
    "fullscreen (onDOMContentLoaded p) = fullscreen p"
  by (simp_all add: handleKeyPress_def onTouchEnd_def handleSwipe_def onMouseUp_def Let_def
      onDOMContentLoaded_def init_def initDemoInteraction_def)

lemma fullscreen_dispatch:
  fixes p :: "('n::linordered_idom, 'z) page_scheme"
  assumes "dispatch e p = Inr (q, effs)"
  shows "fullscreen q = (case e of FullscreenChange b \<Rightarrow> b | _ \<Rightarrow> fullscreen p)"
proof (cases e)
  case (KeyDown k)
  with assms have "q = (if listening p then fst (handleKeyPress k p) else p)"
    by (auto simp: prod_eq_iff)
  with KeyDown show ?thesis by simp
qed (use assms in \<open>auto simp: onTouchStart_def onMouseDown_def handleVisibilityChange_def
      tabClick_def page_fields_nav fadeIn_def split: if_splits sum.splits\<close>)

lemma last_report_Cons:
  "last_report (e # es) f = last_report es (case e of FullscreenChange b \<Rightarrow> b | _ \<Rightarrow> f)"
  by (cases e) simp_all

lemma fullscreen_run_step:
  fixes p :: "('n::linordered_idom, 'z) page_scheme"
  shows "fullscreen (case dispatch e p of Inl _ \<Rightarrow> p | Inr (q, _) \<Rightarrow> q) =
           (case e of FullscreenChange b \<Rightarrow> b | _ \<Rightarrow> fullscreen p)"
proof (cases "dispatch e p")
  case (Inl err)
  then show ?thesis by (cases e) simp_all
next
  case (Inr r)
  then show ?thesis by (cases r) (auto dest: fullscreen_dispatch)
qed

lemma listening_dispatch:
  fixes p :: "('n::linordered_idom, 'z) page_scheme"
  assumes "dispatch e p = Inr (q, effs)" and "listening p"
  shows "listening q"
proof (cases "input_event e")
  case True
  with assms show ?thesis using lifecycle_dispatch [OF assms(1)] by (simp add: lifecycle_def)
next
  case False
  with assms show ?thesis
    by (auto simp: input_event_def onDOMContentLoaded_def init_def initDemoInteraction_def
        fadeIn_def Let_def)
qed

lemma effects_dispatch:
  fixes p :: "('n::linordered_idom, 'z) page_scheme"
  assumes "dispatch e p = Inr (q, effs)"
  shows "count_list effs Print = (if e = PrintCall then 1 else 0) \<and>
         fullscreen_requests effs = (if e = KeyDown ''Escape'' \<and> listening p then 1 else 0)"
  using assms
  by (cases e) (auto simp: fullscreen_requests_def handleKeyPress_def toggleFullscreen_def
      printSlides_def handleVisibilityChange_def split: if_splits sum.splits)

lemma effects_dispatch_Inl:
  "dispatch e p = Inl err \<Longrightarrow> e \<noteq> PrintCall \<and> e \<noteq> KeyDown ''Escape''"
  by auto

lemma fullscreen_requests_append [simp]:
  "fullscreen_requests (xs @ ys) = fullscreen_requests xs + fullscreen_requests ys"
  by (simp add: fullscreen_requests_def)

lemma fullscreen_requests_Nil [simp]: "fullscreen_requests [] = 0"
  by (simp add: fullscreen_requests_def)

section \<open>Claims on the host interface\<close>

text \<open>
  C26. The script never changes the fullscreen state itself, it only asks the
  host: along any run of events, its view of fullscreen is the host's last
  report, and on a page with listeners Escape requests fullscreen exactly
  when the host last reported that the page is not fullscreen, and asks to
  leave it otherwise, without any other change.
\<close>

theorem fullscreen_follows_host:
  fixes p :: "('n::linordered_idom, 'z) page_scheme"
  shows "fullscreen (run es p) = last_report es (fullscreen p) \<and>
         (listening (run es p) \<longrightarrow>
            dispatch (KeyDown ''Escape'') (run es p) =
              Inr (run es p, [if last_report es (fullscreen p) then ExitFullscreen else RequestFullscreen]))"
proof -
  have f: "fullscreen (run es p) = last_report es (fullscreen p)"
  proof (induction es arbitrary: p)
    case (Cons e es)
    then show ?case by (simp only: run.simps last_report_Cons fullscreen_run_step)
  qed simp
  then show ?thesis
    by (simp add: handleKeyPress_def toggleFullscreen_def)
qed

theorem fullscreen_follows_host_witness:
  "dispatch (KeyDown ''Escape'') (run [FullscreenChange True, KeyDown ''x''] (page_at (3::int)\<lparr>listening := True\<rparr>)) =
     Inr (run [FullscreenChange True, KeyDown ''x''] (page_at (3::int)\<lparr>listening := True\<rparr>), [ExitFullscreen])"
proof -
  have "listening (run [FullscreenChange True, KeyDown ''x''] (page_at (3::int)\<lparr>listening := True\<rparr>))"
    by (simp add: handleKeyPress_def)
  with fullscreen_follows_host [of "[FullscreenChange True, KeyDown ''x'']" "page_at (3::int)\<lparr>listening := True\<rparr>"]
  show ?thesis by (simp only: last_report.simps if_True)
qed


text \<open>
  C31. The host is asked for printing and fullscreen only by the calls that
  mean it: along any run, \<open>window.print\<close> is requested exactly once per
  console call of \<open>printSlides\<close>, and fullscreen is requested or left at most
  once per Escape press, exactly once per press on a page whose listeners are
  installed.
\<close>

theorem host_requests_counted:
  fixes p :: "('n::linordered_idom, 'z) page_scheme"
  shows "count_list (run_trace es p) Print = count_list es PrintCall \<and>
         fullscreen_requests (run_trace es p) \<le> count_list es (KeyDown ''Escape'') \<and>
         (listening p \<longrightarrow> fullscreen_requests (run_trace es p) = count_list es (KeyDown ''Escape''))"
proof (induction es arbitrary: p)
  case Nil
  then show ?case by simp
next
  case (Cons e es)
  show ?case
  proof (cases "dispatch e p")
    case (Inl err)
    then have "e \<noteq> PrintCall \<and> e \<noteq> KeyDown ''Escape''" by (rule effects_dispatch_Inl)
    with Inl Cons.IH [of p] show ?thesis by simp
  next
    case (Inr r)
    obtain q effs where r: "r = (q, effs)" by (cases r)
    with Inr have d: "dispatch e p = Inr (q, effs)" by simp
    have "listening p \<longrightarrow> listening q"
      using listening_dispatch [OF d] by blast
    with d effects_dispatch [OF d] Cons.IH [of q] show ?thesis
      by auto
  qed
qed

theorem host_requests_counted_witness:
  "fullscreen_requests (run_trace [KeyDown ''Escape'', FullscreenChange True, KeyDown ''Escape'', PrintCall]
      (page_at (3::int)\<lparr>listening := True\<rparr>)) = 2 \<and>
   count_list (run_trace [KeyDown ''Escape'', FullscreenChange True, KeyDown ''Escape'', PrintCall]
      (page_at (3::int)\<lparr>listening := True\<rparr>)) Print = 1"
  using host_requests_counted [of "[KeyDown ''Escape'', FullscreenChange True, KeyDown ''Escape'', PrintCall]"
      "page_at (3::int)\<lparr>listening := True\<rparr>"]
  by simp

end
