(* ===== verification/Simulation.thy ===== *)
theory Simulation
  imports Host
begin

text \<open>
  The specification's view of the whole page (sections 4.1--4.4 and 5): an
  abstract machine with the 0-based slide position, whether the page's input
  listeners are live, where the current touch began, and where an armed drag
  began. Every event of \<open>Page.event\<close> is a step of it; navigation is the
  clamped counter \<open>nav_abs\<close>, the gesture adapters use the threshold rule
  \<open>gesture_call\<close>, the keys use the table \<open>key_nav\<close>.

  \<open>abs_page\<close> maps a page of the implementation to an abstract state, and the
  main result is a simulation: along any run of events that the specification
  admits, the page and the abstract machine stay related by \<open>abs_page\<close>. The
  specification does not admit a second \<open>DOMContentLoaded\<close> (the browser fires
  it once) or a press outside the slides while a drag is armed (a lost release,
  where the code keeps the stale drag and the specification does not, see
  \<open>Page.stale_drag_arming\<close>).
\<close>

section \<open>The abstract machine\<close>

record spec_state =
  pos :: nat
  live :: bool
  touch_from :: int
  drag_from :: "int option"

definition apply_abs :: "int nav_op option \<Rightarrow> spec_state \<Rightarrow> spec_state" where
  "apply_abs c a = (case c of None \<Rightarrow> a | Some op \<Rightarrow> a\<lparr>pos := nav_abs op (pos a)\<rparr>)"

fun spec_event :: "int event \<Rightarrow> spec_state \<Rightarrow> spec_state" where
  "spec_event DOMContentLoaded a = a\<lparr>live := True, touch_from := 0\<rparr>"
| "spec_event (KeyDown k) a = (if live a then apply_abs (key_nav k) a else a)"
| "spec_event (TouchStart x) a = (if live a then a\<lparr>touch_from := x\<rparr> else a)"
| "spec_event (TouchEnd x) a =
     (if live a then apply_abs (gesture_call (touch_from a) x) a else a)"
| "spec_event (MouseDown inSlide x) a = a\<lparr>drag_from := (if inSlide then Some x else None)\<rparr>"
| "spec_event (MouseUp x) a =
     (case drag_from a of None \<Rightarrow> a | Some s \<Rightarrow> apply_abs (gesture_call s x) a)\<lparr>drag_from := None\<rparr>"
| "spec_event (Call op) a = apply_abs (Some op) a"
| "spec_event _ a = a"

fun spec_admits :: "int event \<Rightarrow> spec_state \<Rightarrow> bool" where
  "spec_admits DOMContentLoaded a = (\<not> live a)"
| "spec_admits (MouseDown inSlide x) a = (inSlide \<or> drag_from a = None)"
| "spec_admits _ a = True"

fun spec_run :: "int event list \<Rightarrow> spec_state \<Rightarrow> spec_state option" where
  "spec_run [] a = Some a"
| "spec_run (e # es) a = (if spec_admits e a then spec_run es (spec_event e a) else None)"

definition abs_page :: "(int, 'z) page_scheme \<Rightarrow> spec_state" where
  "abs_page p =
     \<lparr>pos = position p, live = listening p, touch_from = touchStartX p,
      drag_from = (if isMouseDown p then Some (mouseStartX p) else None)\<rparr>"

section \<open>One step\<close>

lemma abs_page_nav_step:
  fixes p :: "(int, 'z) page_scheme"
  assumes "in_deck (currentSlide p)"
  shows "abs_page (nav_step op p) = apply_abs (Some op) (abs_page p)"
  using assms
  by (simp add: abs_page_def apply_abs_def position_nav_step_in_deck page_fields_nav)

lemma abs_page_apply_call:
  fixes p :: "(int, 'z) page_scheme"
  assumes "in_deck (currentSlide p)"
  shows "abs_page (apply_call c p) = apply_abs c (abs_page p)"
  using assms by (cases c) (simp_all add: apply_call_def apply_abs_def abs_page_nav_step)

lemma position_truncate:
  "deck.truncate q = deck.truncate p \<Longrightarrow> position q = position p"
  by (simp add: position_def deck.truncate_def)

lemma abs_page_handleSwipe:
  fixes p :: "(int, 'z) page_scheme"
  assumes "in_deck (currentSlide p)"
  shows "abs_page (onTouchEnd x p) = apply_abs (gesture_call (touchStartX p) x) (abs_page p)"
proof -
  have p: "onTouchStart (touchStartX p) p = p"
    by (simp add: onTouchStart_def)
  have t: "deck.truncate (onTouchEnd x p) = deck.truncate (apply_call (gesture_call (touchStartX p) x) p)"
    using touch_gesture_apply [of x "touchStartX p" p] p
    by (simp add: apply_call_def truncate_nav_step split: option.splits)
  have f: "listening (onTouchEnd x p) = listening p \<and> touchStartX (onTouchEnd x p) = touchStartX p \<and>
           isMouseDown (onTouchEnd x p) = isMouseDown p \<and> mouseStartX (onTouchEnd x p) = mouseStartX p"
    by (simp add: onTouchEnd_def handleSwipe_def Let_def nextSlide_def prevSlide_def)
  have "abs_page (apply_call (gesture_call (touchStartX p) x) p) =
          apply_abs (gesture_call (touchStartX p) x) (abs_page p)"
    using assms by (rule abs_page_apply_call)
  moreover have "position (onTouchEnd x p) = position (apply_call (gesture_call (touchStartX p) x) p)"
    using t by (rule position_truncate)
  ultimately show ?thesis
    using f position_nav_step_in_deck [OF assms]
    by (simp add: abs_page_def apply_call_def apply_abs_def page_fields_nav split: option.splits)
qed

lemma abs_page_onMouseUp:
  fixes p :: "(int, 'z) page_scheme"
  assumes "in_deck (currentSlide p)"
  shows "abs_page (onMouseUp x p) = spec_event (MouseUp x) (abs_page p)"
proof -
  let ?c = "if isMouseDown p then gesture_call (mouseStartX p) x else None"
  have t: "deck.truncate (onMouseUp x p) = deck.truncate (apply_call ?c p)"
    by (simp add: truncate_onMouseUp apply_call_def truncate_nav_step split: option.splits)
  have "position (onMouseUp x p) = position (apply_call ?c p)"
    using t by (rule position_truncate)
  moreover have "abs_page (apply_call ?c p) = apply_abs ?c (abs_page p)"
    using assms by (rule abs_page_apply_call)
  ultimately show ?thesis
    by (cases ?c) (auto simp: abs_page_def apply_abs_def apply_call_def)
qed

lemma abs_page_onDOMContentLoaded:
  "abs_page (onDOMContentLoaded p) = spec_event DOMContentLoaded (abs_page p)"
  by (simp add: abs_page_def onDOMContentLoaded_def initDemoInteraction_def init_def Let_def
      position_def)

lemma abs_page_step:
  fixes p :: "int page"
  assumes deck: "in_deck (currentSlide p)" and adm: "spec_admits e (abs_page p)"
  shows "abs_page (run [e] p) = spec_event e (abs_page p)"
proof (cases e)
  case (KeyDown k)
  have "fst (handleKeyPress k p) = apply_call (key_nav k) p"
    by (simp add: handleKeyPress_state apply_call_def)
  with KeyDown deck show ?thesis
    by (simp add: case_prod_unfold abs_page_apply_call) (simp add: abs_page_def)
next
  case (TouchEnd x)
  with deck show ?thesis
    by (simp add: abs_page_handleSwipe) (simp add: abs_page_def)
next
  case (MouseDown inSlide x)
  with adm show ?thesis
    by (auto simp: onMouseDown_def abs_page_def position_def)
next
  case (MouseUp x)
  with deck show ?thesis
    by (simp add: abs_page_onMouseUp)
next
  case (Call op)
  with deck show ?thesis
    by (simp add: abs_page_nav_step)
next
  case DOMContentLoaded
  then show ?thesis
    by (simp only: run.simps dispatch.simps) (simp add: abs_page_onDOMContentLoaded)
qed (simp_all add: abs_page_def position_def onTouchStart_def tabClick_def
      handleVisibilityChange_def fadeIn_def)

section \<open>Runs\<close>

lemma fires_admitted:
  "spec_admits e (abs_page p) \<Longrightarrow> fires e p"
  by (cases e) (simp_all add: fires_def abs_page_def)

lemma run_Cons_step: "run (e # es) p = run es (run [e] p)"
  by simp

text \<open>
  C20. Refinement of the specification's page machine: from any reachable page,
  every run of events the specification admits leads to a reachable page whose
  abstraction is the state the abstract machine reaches on the same events,
  so slide position, live listeners, touch start and armed drag all evolve as
  the specification says, for keys, touches, drags, console calls and host
  events alike.
\<close>

theorem page_refines_spec:
  fixes p :: "int page"
  assumes "reachable p" and "spec_run es (abs_page p) = Some a"
  shows "reachable (run es p) \<and> abs_page (run es p) = a"
  using assms
proof (induction es arbitrary: p)
  case Nil
  then show ?case by simp
next
  case (Cons e es)
  have adm: "spec_admits e (abs_page p)" and rest: "spec_run es (spec_event e (abs_page p)) = Some a"
    using Cons.prems(2) by (simp_all split: if_splits)
  have r: "reachable (run [e] p)"
    using Cons.prems(1) fires_admitted [OF adm] by (rule reachable_run_step)
  have "abs_page (run [e] p) = spec_event e (abs_page p)"
    using page_inv_in_deck [OF reachable_page_inv_lemma [OF Cons.prems(1)]] adm
    by (rule abs_page_step)
  with rest have "spec_run es (abs_page (run [e] p)) = Some a"
    by simp
  from Cons.IH [OF r this] show ?case
    unfolding run_Cons_step [of e es p] .
qed

theorem page_refines_spec_witness:
  "reachable (run [TouchStart 300, TouchEnd 200, MouseDown True 100, MouseUp 400, Call (GoTo 5)]
      (onDOMContentLoaded (loaded (fresh_view totalSlides) [] :: int page))) \<and>
   pos (the (spec_run [TouchStart 300, TouchEnd 200, MouseDown True 100, MouseUp 400, Call (GoTo 5)]
      (abs_page (onDOMContentLoaded (loaded (fresh_view totalSlides) [] :: int page))))) = 4"
proof -
  let ?p = "onDOMContentLoaded (loaded (fresh_view totalSlides) [] :: int page)"
  let ?es = "[TouchStart 300, TouchEnd 200, MouseDown True 100, MouseUp 400, Call (GoTo (5::int))]"
  have r: "reachable ?p"
    by (rule reachable.step [OF reachable.start, where e = DOMContentLoaded and effs = "[]"])
      (simp_all add: fires_def loaded_def)
  have a: "abs_page ?p = \<lparr>pos = 0, live = True, touch_from = 0, drag_from = None\<rparr>"
    by (simp add: abs_page_def onDOMContentLoaded_def initDemoInteraction_def init_def Let_def
        loaded_def position_def)
  have s: "spec_run ?es (abs_page ?p) = Some \<lparr>pos = 4, live = True, touch_from = 300, drag_from = None\<rparr>"
    unfolding a by (simp add: apply_abs_def gesture_call_def totalSlides_def)
  show ?thesis
    using page_refines_spec [OF r s] s by simp
qed

end
