(* ===== verification/Console.thy ===== *)
theory Console
  imports Input
begin

text \<open>
  The help banner the script prints with \<open>console.log\<close> when it is evaluated
  (lines 181--193). The banner is decoration (a title, two rules of box
  characters) around seven lines that document the controls: the mouse and
  the touch screen switch slides by sliding left or right, and five keyboard
  lines give a key (or two) and what it does. The model keeps the documented
  content of each line: the input it names, with the keys as the
  \<open>KeyboardEvent.key\<close> values the handler compares against (\<open>\<rightarrow>\<close> is
  \<open>ArrowRight\<close>, the word for space is \<open>' '\<close>, \<open>\<leftarrow>\<close> is \<open>ArrowLeft\<close>,
  \<open>Esc\<close> is \<open>Escape\<close>), and the action in its words: next slide, previous
  slide, first slide, last slide, toggle fullscreen, switch slides.

  \<open>help_lookup\<close> reads the banner as a key table and \<open>help_effect\<close> gives each
  documented action its meaning in terms of the controller and the host.
  The claim is that the banner documents the keyboard handler completely and
  correctly.
\<close>

section \<open>The banner\<close>

datatype help_action = HelpNext | HelpPrev | HelpFirst | HelpLast | HelpFullscreen | HelpSwipe

datatype help_line = HelpGesture string help_action | HelpKeys "key list" help_action

definition console_help :: "help_line list" where
  "console_help =
     [HelpGesture ''mouse'' HelpSwipe,
      HelpKeys [''ArrowRight'', '' ''] HelpNext,
      HelpKeys [''ArrowLeft''] HelpPrev,
      HelpKeys [''Home''] HelpFirst,
      HelpKeys [''End''] HelpLast,
      HelpKeys [''Escape''] HelpFullscreen,
      HelpGesture ''touch'' HelpSwipe]"

section \<open>Reading the banner\<close>



definition help_keys :: "help_line list \<Rightarrow> key list" where
  "help_keys ls = concat (map (\<lambda>l. case l of HelpKeys ks a \<Rightarrow> ks | HelpGesture g a \<Rightarrow> []) ls)"

section \<open>Facts about the banner\<close>


section \<open>Claims on the banner\<close>


text \<open>
  C30. The banner documents every key the handler reacts to, and only those:
  a key changes the page or asks something of the host exactly when it
  appears in the banner's key lines (on a page where the change is visible:
  not at a bound the key would clamp at).
\<close>

theorem console_help_keys_exact:
  fixes p :: "int page"
  assumes "1 < currentSlide p" and "currentSlide p < totalSlides"
  shows "handleKeyPress k p \<noteq> (p, []) \<longleftrightarrow> k \<in> set (help_keys console_help)"
proof -
  have "nextSlide p \<noteq> p" "prevSlide p \<noteq> p" "goToSlide 1 p \<noteq> p" "goToSlide totalSlides p \<noteq> p"
    using assms by (auto simp: nav_simps dest: arg_cong [where f = currentSlide])
  then show ?thesis
    by (auto simp: handleKeyPress_def toggleFullscreen_def console_help_def help_keys_def)
qed

theorem console_help_keys_exact_witness:
  "handleKeyPress ''Home'' (page_at (4::int)) \<noteq> (page_at 4, []) \<and>
   handleKeyPress ''PageDown'' (page_at (4::int)) = (page_at 4, [])"
  using console_help_keys_exact [of "page_at (4::int)" "''Home''"]
    console_help_keys_exact [of "page_at (4::int)" "''PageDown''"]
  by (simp add: totalSlides_def console_help_def help_keys_def)

end
