(* ===== verification/JsValue.thy ===== *)
theory JsValue
  imports Deck
begin

text \<open>
  The navigation controller of \<open>Deck\<close> again, now over the JavaScript values a
  console caller can pass to the exported \<open>goToSlide\<close> (lines 75--80, 214--217)
  instead of numbers only: numbers (integers here), strings, booleans,
  \<open>null\<close>, \<open>undefined\<close> and \<open>NaN\<close>. The operators of lines 41--55 and 59--80
  are given their JavaScript meaning:
  \<^item> \<open><\<close>, \<open>>\<close>, \<open>>=\<close>, \<open><=\<close> convert both sides with \<open>ToNumber\<close> and are
    false when one side is \<open>NaN\<close> (in this code one side is always a number
    literal or \<open>totalSlides\<close>, so the string-string comparison never arises);
  \<^item> \<open>currentSlide++\<close> and \<open>currentSlide--\<close> convert to a number first;
  \<^item> \<open>===\<close> is strict: values of different types are never equal;
  \<^item> \<open>textContent = currentSlide\<close> stores the value itself.
  \<open>ToNumber\<close> of a string is a parameter \<open>num_of\<close> of the operations (the
  integer the string denotes, \<open>None\<close> for \<open>NaN\<close>); every theorem holds for all
  conversions that agree with JavaScript on the strings it mentions.

  On numbers the model coincides with the one of \<open>Deck\<close> (the integer
  instance), so everything proved there holds for the real JavaScript
  semantics; on strings it shows what a console call like \<open>goToSlide('3')\<close>
  does.
\<close>

section \<open>JavaScript values and operators\<close>

datatype jsval = JNum int | JStr string | JBool bool | JNull | JUndefined | JNaN

fun to_number :: "(string \<Rightarrow> int option) \<Rightarrow> jsval \<Rightarrow> int option" where
  "to_number num_of (JNum n) = Some n"
| "to_number num_of (JStr s) = num_of s"
| "to_number num_of (JBool b) = Some (if b then 1 else 0)"
| "to_number num_of JNull = Some 0"
| "to_number num_of JUndefined = None"
| "to_number num_of JNaN = None"

text \<open>The abstract relational comparison \<open>a < b\<close>: \<open>None\<close> is JavaScript's \<open>undefined\<close> result.\<close>

definition js_less :: "(string \<Rightarrow> int option) \<Rightarrow> jsval \<Rightarrow> jsval \<Rightarrow> bool option" where
  "js_less num_of a b =
     (case (to_number num_of a, to_number num_of b) of
        (Some x, Some y) \<Rightarrow> Some (x < y)
      | _ \<Rightarrow> None)"

definition js_lt :: "(string \<Rightarrow> int option) \<Rightarrow> jsval \<Rightarrow> jsval \<Rightarrow> bool" where
  "js_lt num_of a b \<longleftrightarrow> js_less num_of a b = Some True"

definition js_gt :: "(string \<Rightarrow> int option) \<Rightarrow> jsval \<Rightarrow> jsval \<Rightarrow> bool" where
  "js_gt num_of a b \<longleftrightarrow> js_less num_of b a = Some True"

definition js_ge :: "(string \<Rightarrow> int option) \<Rightarrow> jsval \<Rightarrow> jsval \<Rightarrow> bool" where
  "js_ge num_of a b \<longleftrightarrow> js_less num_of a b = Some False"

definition js_le :: "(string \<Rightarrow> int option) \<Rightarrow> jsval \<Rightarrow> jsval \<Rightarrow> bool" where
  "js_le num_of a b \<longleftrightarrow> js_less num_of b a = Some False"

fun js_strict_eq :: "jsval \<Rightarrow> jsval \<Rightarrow> bool" where
  "js_strict_eq (JNum x) (JNum y) = (x = y)"
| "js_strict_eq (JStr s) (JStr t) = (s = t)"
| "js_strict_eq (JBool a) (JBool b) = (a = b)"
| "js_strict_eq JNull JNull = True"
| "js_strict_eq JUndefined JUndefined = True"
| "js_strict_eq _ _ = False"

definition js_incr :: "(string \<Rightarrow> int option) \<Rightarrow> jsval \<Rightarrow> jsval" where
  "js_incr num_of v = (case to_number num_of v of Some n \<Rightarrow> JNum (n + 1) | None \<Rightarrow> JNaN)"

definition js_decr :: "(string \<Rightarrow> int option) \<Rightarrow> jsval \<Rightarrow> jsval" where
  "js_decr num_of v = (case to_number num_of v of Some n \<Rightarrow> JNum (n - 1) | None \<Rightarrow> JNaN)"

section \<open>The controller over JavaScript values\<close>

definition updateSlideDisplay_js :: "(jsval, 'z) deck_scheme \<Rightarrow> (jsval, 'z) deck_scheme" where
  "updateSlideDisplay_js d =
     (let c = currentSlide d; v = dom_view d in
      d\<lparr>dom_view := v\<lparr>slide_active := map (\<lambda>index. js_strict_eq (JNum (int index + 1)) c)
                                          [0..<length (slide_active v)],
                       indicator_active := map (\<lambda>index. js_strict_eq (JNum (int index + 1)) c)
                                          [0..<length (indicator_active v)],
                       counter_text := c,
                       prev_disabled := js_strict_eq c (JNum 1),
                       next_disabled := js_strict_eq c (JNum totalSlides)\<rparr>\<rparr>)"

definition nextSlide_js ::
  "(string \<Rightarrow> int option) \<Rightarrow> (jsval, 'z) deck_scheme \<Rightarrow> (jsval, 'z) deck_scheme" where
  "nextSlide_js num_of d =
     (if js_lt num_of (currentSlide d) (JNum totalSlides)
      then updateSlideDisplay_js (d\<lparr>currentSlide := js_incr num_of (currentSlide d)\<rparr>)
      else d)"


definition goToSlide_js ::
  "(string \<Rightarrow> int option) \<Rightarrow> jsval \<Rightarrow> (jsval, 'z) deck_scheme \<Rightarrow> (jsval, 'z) deck_scheme" where
  "goToSlide_js num_of slideNumber d =
     (if js_ge num_of slideNumber (JNum 1) \<and> js_le num_of slideNumber (JNum totalSlides)
      then updateSlideDisplay_js (d\<lparr>currentSlide := slideNumber\<rparr>)
      else d)"

section \<open>Numbers as JavaScript values\<close>

definition js_view :: "int view \<Rightarrow> jsval view" where
  "js_view v =
     \<lparr>slide_active = slide_active v, indicator_active = indicator_active v,
      counter_text = JNum (counter_text v), total_text = JNum (total_text v),
      prev_disabled = prev_disabled v, next_disabled = next_disabled v\<rparr>"

definition js_deck :: "int deck \<Rightarrow> jsval deck" where
  "js_deck d = \<lparr>currentSlide = JNum (currentSlide d), dom_view = js_view (dom_view d)\<rparr>"

section \<open>Operators on numbers\<close>

lemma js_ops_JNum [simp]:
  "js_lt num_of (JNum x) (JNum y) \<longleftrightarrow> x < y"
  "js_gt num_of (JNum x) (JNum y) \<longleftrightarrow> y < x"
  "js_ge num_of (JNum x) (JNum y) \<longleftrightarrow> \<not> x < y"
  "js_le num_of (JNum x) (JNum y) \<longleftrightarrow> \<not> y < x"
  "js_incr num_of (JNum x) = JNum (x + 1)"
  "js_decr num_of (JNum x) = JNum (x - 1)"
  by (simp_all add: js_lt_def js_gt_def js_ge_def js_le_def js_less_def js_incr_def js_decr_def)



lemma js_less_totalSlides_Str:
  "js_less num_of (JStr s) (JNum totalSlides) = map_option (\<lambda>n. n < totalSlides) (num_of s)"
  by (cases "num_of s") (simp_all add: js_less_def)

section \<open>Claims on the JavaScript semantics\<close>


text \<open>
  C33. A string argument from the console passes \<open>goToSlide\<close>'s range check
  when it denotes a slide number, but the string itself becomes
  \<open>currentSlide\<close>: the strict comparisons of \<open>updateSlideDisplay\<close> then match
  no slide, no indicator and neither bound, so the page shows no slide and
  both buttons enabled; the next \<open>nextSlide\<close> converts the index back to a
  number and repairs the display.
\<close>

theorem goToSlide_string_blanks:
  assumes "num_of s = Some n" and "1 \<le> n" and "n \<le> totalSlides"
  shows "currentSlide (goToSlide_js num_of (JStr s) d) = JStr s \<and>
         count_list (slide_active (dom_view (goToSlide_js num_of (JStr s) d))) True = 0 \<and>
         count_list (indicator_active (dom_view (goToSlide_js num_of (JStr s) d))) True = 0 \<and>
         \<not> prev_disabled (dom_view (goToSlide_js num_of (JStr s) d)) \<and>
         \<not> next_disabled (dom_view (goToSlide_js num_of (JStr s) d)) \<and>
         (n < totalSlides \<longrightarrow>
            currentSlide (nextSlide_js num_of (goToSlide_js num_of (JStr s) d)) = JNum (n + 1))"
proof -
  have acc: "js_ge num_of (JStr s) (JNum 1) \<and> js_le num_of (JStr s) (JNum totalSlides)"
    using assms by (simp add: js_ge_def js_le_def js_less_def totalSlides_def not_less)
  have no_match: "count_list (map (\<lambda>index. js_strict_eq (JNum (int index + 1)) (JStr s)) xs) True = 0"
    for xs :: "nat list"
    by (induction xs) simp_all
  show ?thesis
    using acc assms
    by (simp add: goToSlide_js_def updateSlideDisplay_js_def Let_def no_match nextSlide_js_def
        js_lt_def js_less_totalSlides_Str js_incr_def)
qed

theorem goToSlide_string_blanks_witness:
  "count_list (slide_active (dom_view
      (goToSlide_js (\<lambda>s. if s = ''3'' then Some 3 else None) (JStr ''3'')
         (js_deck (updateSlideDisplay (deck_at 1)))))) True = 0 \<and>
   currentSlide (nextSlide_js (\<lambda>s. if s = ''3'' then Some 3 else None)
      (goToSlide_js (\<lambda>s. if s = ''3'' then Some 3 else None) (JStr ''3'')
         (js_deck (updateSlideDisplay (deck_at 1))))) = JNum 4"
  using goToSlide_string_blanks [of "\<lambda>s. if s = ''3'' then Some 3 else None" "''3''" 3
      "js_deck (updateSlideDisplay (deck_at 1))"]
  by (simp add: totalSlides_def)

text \<open>
  C34. Arguments that do not denote a slide number are rejected silently:
  \<open>goToSlide()\<close> (\<open>undefined\<close>), \<open>goToSlide(NaN)\<close>, a string that is not a
  number, \<open>null\<close>, \<open>false\<close> and numbers or numeric strings outside the deck
  all leave the deck unchanged.
\<close>

theorem goToSlide_js_rejects:
  assumes "\<not> (\<exists>k. to_number num_of v = Some k \<and> 1 \<le> k \<and> k \<le> totalSlides)"
  shows "goToSlide_js num_of v d = d"
  using assms
  by (cases "to_number num_of v")
    (auto simp: goToSlide_js_def js_ge_def js_le_def js_less_def totalSlides_def)

theorem goToSlide_js_rejects_witness:
  "goToSlide_js (\<lambda>s. None) JUndefined (js_deck (deck_at 2)) = js_deck (deck_at 2) \<and>
   goToSlide_js (\<lambda>s. None) JNull (js_deck (deck_at 2)) = js_deck (deck_at 2) \<and>
   goToSlide_js (\<lambda>s. None) (JStr ''abc'') (js_deck (deck_at 2)) = js_deck (deck_at 2)"
  using goToSlide_js_rejects [of "\<lambda>s. None" JUndefined "js_deck (deck_at 2)"]
    goToSlide_js_rejects [of "\<lambda>s. None" JNull "js_deck (deck_at 2)"]
    goToSlide_js_rejects [of "\<lambda>s. None" "JStr ''abc''" "js_deck (deck_at 2)"]
  by simp

end
