(* ===== verification/Spec2Isabelle.thy ===== *)
theory Spec2Isabelle
  imports Simulation Console JsValue
begin

text \<open>
  \<^bold>\<open>A verified model of the slide-deck controller \<open>src/script.js\<close>.\<close>

  \<^bold>\<open>The program.\<close> One script drives an eight-slide presentation page. A
  navigation controller (the global \<open>currentSlide\<close>, the constant
  \<open>totalSlides\<close>, \<open>updateSlideDisplay\<close>, \<open>nextSlide\<close>, \<open>prevSlide\<close>,
  \<open>goToSlide\<close>, exported on \<open>window\<close>) owns the index and re-renders the DOM
  after every accepted change. Three input adapters call it: the keyboard
  handler \<open>handleKeyPress\<close> (which also asks the host to toggle fullscreen),
  the touch listeners with \<open>handleSwipe\<close>, registered by \<open>init\<close>, and the mouse
  listeners registered when the script is evaluated. Evaluation also prints a
  help banner on the console. The \<open>DOMContentLoaded\<close> listener runs \<open>init\<close>
  and \<open>initDemoInteraction\<close> (the demo tabs) and starts a fade-in of the body
  that a \<open>setTimeout\<close> callback completes; a visibility listener, a
  context-menu listener, an empty resize listener and \<open>printSlides\<close> complete
  the page. All of it is single-threaded: listeners and callbacks run to
  completion, one event at a time.

  \<^bold>\<open>The library.\<close>
  \<^item> \<open>Prelude\<close>: the \<open>nav_simps\<close>/\<open>frame_simps\<close> collections, the type of keys,
    counting lemmas for lists of flags (\<open>count_list\<close> over an injective
    comparison) and the fact that half an odd integer is not an integer.
  \<^item> \<open>Deck\<close> (NavigationController, lines 1--80, 214--217): record \<open>deck\<close>
    with \<open>currentSlide\<close> and the written DOM (record \<open>view\<close>: one \<open>active\<close>
    flag per \<open>.slide\<close> and \<open>.indicator\<close> node, the two counters, the two
    button states); \<open>updateSlideDisplay\<close>, \<open>nextSlide\<close>, \<open>prevSlide\<close>,
    \<open>goToSlide\<close> as functions on the record scheme; the public calls as the
    datatype \<open>nav_op\<close> with \<open>nav_step\<close> and runs \<open>nav_run\<close>. A JavaScript
    number is a value of a type \<open>'n::linordered_idom\<close>: \<open>int\<close> for what the
    page computes, \<open>rat\<close> for a console caller who passes \<open>2.5\<close>.
    The invariant \<open>deck_inv\<close> is "the index is a slide number and the DOM shows
    it" (\<open>rendered\<close>: re-rendering changes nothing). The abstract specification
    \<open>nav_abs\<close> is a clamped counter on a 0-based \<open>nat\<close> position.
  \<^item> \<open>Input\<close> (KeyAdapter, SwipeAdapter, DragAdapter, lines 20--35, 83--116,
    130--154): record \<open>page\<close> extends \<open>deck\<close> with the adapters' variables,
    the host's fullscreen state, the tab flags, which listeners exist, and the
    body's inline opacity and transition with the pending fade-in callbacks;
    handlers return the new page and the host \<open>effect\<close>s. \<open>key_nav\<close> and
    \<open>gesture_call\<close> are the specification's key table and threshold rule.
  \<^item> \<open>JsValue\<close> (lines 39--80 again): the controller over JavaScript
    values (\<open>jsval\<close>: integers, strings, booleans, \<open>null\<close>, \<open>undefined\<close>,
    \<open>NaN\<close>) with the coercions of \<open><\<close>, \<open>>=\<close>, \<open><=\<close>, \<open>++\<close>, \<open>--\<close> and
    the strict \<open>===\<close>, for what a console caller can pass to \<open>goToSlide\<close>;
    \<open>ToNumber\<close> of a string is a parameter \<open>num_of\<close>.
  \<^item> \<open>Console\<close> (lines 181--193): the help banner as the list of its
    documented controls (\<open>console_help\<close>, one \<open>help_line\<close> per line; the
    title and rules are decoration), read as a key table.
  \<^item> \<open>Page\<close> (lifecycle, lines 12--36, 119--127, 157--212): the \<open>event\<close>
    datatype, \<open>dispatch\<close> to the listeners present at that moment, with
    \<open>js_error + (page \<times> effect list)\<close> as result, runs of events, and the
    inductive set \<open>reachable\<close> from the state after script evaluation
    (\<open>loaded\<close>, the markup's DOM as a parameter; \<open>DOMContentLoaded\<close> fires once).
    The fade-in is \<open>onDOMContentLoaded\<close>'s last three statements and the
    \<open>FadeTimer\<close> event running \<open>fadeIn\<close>. \<open>dom_shape\<close> counts the nodes the
    script writes, \<open>lifecycle\<close> and \<open>fade_inv\<close> describe the fade-in.
  \<^item> \<open>Host\<close> (HostControls: \<open>toggleFullscreen\<close>, \<open>printSlides\<close>): the host's
    fullscreen state along a run (\<open>last_report\<close>) and the requests a run makes
    (\<open>run_trace\<close>).
  \<^item> \<open>Simulation\<close> (the page as a whole against sections 4 and 5 of the
    specification): record \<open>spec_state\<close> of an abstract page machine (0-based
    position, live listeners, touch start, armed drag), its step
    \<open>spec_event\<close> for every event (the fade-in callback is invisible to it),
    the events it admits (\<open>spec_admits\<close>: no second \<open>DOMContentLoaded\<close>, no
    press outside the slides while a drag is armed), and the abstraction
    \<open>abs_page\<close> of a concrete page.

  \<^bold>\<open>What is proved.\<close> C18, C19 and C24 are stated below, C20 in
  \<open>Simulation\<close>, C26 and C31 in \<open>Host\<close>, C29 and C30 in \<open>Console\<close>, C32--C34
  in \<open>JsValue\<close>, the others
  in \<open>Deck\<close>, \<open>Input\<close> and \<open>Page\<close>. The controller clamps at both ends (C3,
  C4), \<open>goToSlide\<close> sets the slide and leaves exactly one slide and indicator
  active (C5) and rejects out of range targets without any change (C6),
  buttons are disabled exactly at the bounds after every call (C7), every run
  of calls refines the abstract counter, the DOM being its view (C2); seven
  \<open>nextSlide\<close> calls reach the last slide (C12); \<open>prevSlide\<close> and
  \<open>nextSlide\<close> undo each other inside the deck (C21). The key handler is the
  specification's table (C8) and the console banner's (C29, C30); a swipe
  makes at most one call by the threshold rule (C9), keeps the index in range
  and moves it exactly when the movement exceeds 50 (C23); a drag and a swipe
  with the same coordinates have the same effect (C10); a release always
  disarms the drag (C11). Over all reachable pages the index stays in range
  and, after \<open>init\<close>, the DOM shows it (C1, rule induction over
  \<open>reachable\<close>), and the fade-in is well bracketed (C27); demo tabs keep one
  active tab (C13); no event adds or removes a node (C22); invalid input is
  ignored silently (C25); the fade-in completes whatever input comes first
  (C28). The fullscreen state is the host's and Escape follows it (C26);
  printing and fullscreen are requested once per call that means it (C31).
  C18 lifts the refinement to key presses on a live page, C19 shows that a
  live page always has exactly one active slide and indicator, C24 that Home
  and ArrowRight reach every slide. C20 is the simulation of the whole page by
  the abstract page machine: along every run it admits, from every reachable
  page, \<open>abs_page\<close> of the page is the machine's state, for keys, touches,
  drags, console calls and host events. On numbers the JavaScript value
  semantics of the controller is the integer model (C32), so the results on
  \<open>Deck\<close> hold for the real operators; arguments that are not slide numbers
  are ignored (C34).

  \<^bold>\<open>Findings.\<close> The visibility listener throws a \<open>ReferenceError\<close> whenever
  the page is hidden (C14); a lost mouse release leaves the drag armed, so a
  drag that starts outside the slides navigates (C15); mouse drags work before
  \<open>DOMContentLoaded\<close> while keys and touches do not (C16); \<open>goToSlide\<close>
  accepts fractional numbers and lets \<open>nextSlide\<close> leave the deck (C17);
  against section 4.4 of the specification, swipe and drag have the same
  polarity (C10); input during the fade-in navigates a transparent page
  (C28); \<open>goToSlide('3')\<close> from the console stores the string and leaves no
  slide active (C33).

  \<^bold>\<open>Bounds, fuel and termination.\<close> Nothing in the script loops:
  \<open>forEach\<close> is \<open>map\<close> over the node list, runs and traces are structural
  recursion on event lists, so every definition is total by construction, no
  fuel is needed and no termination property is stated. \<open>totalSlides = 8\<close>
  is the constant of the source; the number of DOM nodes is the length of the
  flag lists and is a hypothesis where it matters (C5). At most one fade-in
  callback is ever pending because \<open>DOMContentLoaded\<close> fires once (C27).

  \<^bold>\<open>Plan.\<close> Modelled in this order: the controller and its abstract
  counter, the three adapters against the specification's table and
  threshold rule, the page lifecycle and its reachable states, the simulation
  of the whole page by an abstract page machine, the host's fullscreen
  protocol and request trace, the fade-in and the console banner, the
  controller over JavaScript values (all done). What is left is outside
  \<open>src/\<close> or outside the script (see below).

  \<^bold>\<open>Not modelled.\<close> The HTML and CSS (not in \<open>src/\<close>): node counts and
  initial classes are parameters, every element the script looks up is
  assumed present (with \<open>.nav-btn.prev\<close> or \<open>#current-slide\<close> missing,
  \<open>updateSlideDisplay\<close> would throw a \<open>TypeError\<close>), and how indicators and
  buttons are wired to \<open>goToSlide\<close>/\<open>nextSlide\<close> is unknown. What the host does
  with fullscreen and print requests, the visual transition itself (only the
  inline style values are kept), the banner's decoration. In \<open>JsValue\<close>,
  numbers are integers (fractions are covered by the \<open>rat\<close> instance of
  \<open>Deck\<close>, C17), objects and arrays passed from the console are not
  modelled (their conversion runs user code), and \<open>ToNumber\<close> of a string is
  a parameter rather than the full grammar of numeric literals.
\<close>

lemma key_run_position:
  fixes p :: "int page"
  assumes "reachable p" and "listening p"
  shows "position (run (map KeyDown ks) p) = fold nav_abs (List.map_filter key_nav ks) (position p) \<and>
         reachable (run (map KeyDown ks) p) \<and> listening (run (map KeyDown ks) p)"
  using assms
proof (induction ks arbitrary: p)
  case Nil
  then show ?case by simp
next
  case (Cons k ks)
  let ?q = "run [KeyDown k] p"
  have r: "reachable ?q"
    using Cons.prems(1) by (rule reachable_dispatch_KeyDown)
  have q: "?q = (case key_nav k of None \<Rightarrow> p | Some op \<Rightarrow> nav_step op p)"
    by (simp only: run_KeyDown_listening [OF Cons.prems(2)] handleKeyPress_state)
  have l: "listening ?q"
    unfolding q using Cons.prems(2) by (simp add: page_fields_nav split: option.splits)
  have inv: "deck_inv p"
    using page_inv_deck_inv [OF reachable_page_inv_lemma [OF Cons.prems(1)] Cons.prems(2)] .
  have "position ?q = (case key_nav k of None \<Rightarrow> position p | Some op \<Rightarrow> nav_abs op (position p))"
    unfolding q using inv by (simp add: position_nav_step split: option.splits)
  moreover have "run (map KeyDown (k # ks)) p = run (map KeyDown ks) ?q"
    by simp
  ultimately show ?case
    using Cons.IH [OF r l] by (simp add: List.map_filter_def split: option.splits)
qed


text \<open>
  C18. On a page whose listeners are installed, a sequence of key presses moves
  the 0-based slide position exactly as the abstract counter does on the
  public calls the specification's key table assigns to those keys; keys
  outside the table are skipped.
\<close>

theorem key_run_refines:
  fixes p :: "int page"
  assumes "reachable p" and "listening p"
  shows "position (run (map KeyDown ks) p) = fold nav_abs (List.map_filter key_nav ks) (position p)"
  using key_run_position [OF assms] by blast

theorem key_run_refines_witness:
  "position (run (map KeyDown [''End'', ''ArrowLeft'', ''x'', ''ArrowLeft'', ''Home'', '' ''])
      (onDOMContentLoaded (loaded (fresh_view totalSlides) [] :: int page))) = 1"
proof -
  let ?p = "onDOMContentLoaded (loaded (fresh_view totalSlides) [] :: int page)"
  have r: "reachable ?p"
    by (rule reachable.step [OF reachable.start, where e = DOMContentLoaded and effs = "[]"])
      (simp_all add: fires_def loaded_def)
  have l: "listening ?p"
    by (simp add: onDOMContentLoaded_def initDemoInteraction_def init_def Let_def)
  show ?thesis
    using key_run_refines [OF r l, of "[''End'', ''ArrowLeft'', ''x'', ''ArrowLeft'', ''Home'', '' '']"]
    by (simp add: key_nav_def List.map_filter_def position_def totalSlides_def loaded_def
        onDOMContentLoaded_def initDemoInteraction_def init_def Let_def)
qed

text \<open>
  C19. In every reachable page whose listeners are installed and whose markup
  has \<open>totalSlides\<close> slides and indicators, exactly one slide and exactly one
  indicator are marked active, the ones at the current index.
\<close>

theorem reachable_one_active:
  fixes p :: "int page"
  assumes "reachable p" and "listening p"
    and "length (slide_active (dom_view p)) = totalSlides"
    and "length (indicator_active (dom_view p)) = totalSlides"
  shows "count_list (slide_active (dom_view p)) True = 1 \<and>
         slide_active (dom_view p) ! nat (currentSlide p - 1) \<and>
         count_list (indicator_active (dom_view p)) True = 1 \<and>
         indicator_active (dom_view p) ! nat (currentSlide p - 1)"
proof -
  have inv: "deck_inv p"
    using page_inv_deck_inv [OF reachable_page_inv_lemma [OF assms(1)] assms(2)] .
  then have r: "rendered p" and c: "1 \<le> currentSlide p \<and> currentSlide p \<le> totalSlides"
    by (simp_all add: deck_inv_def in_deck_int_iff)
  have "count_list (active_flags totalSlides (currentSlide p)) True = 1 \<and>
        active_flags totalSlides (currentSlide p) ! nat (currentSlide p - 1)"
    using c by (intro active_flags_single) simp_all
  then show ?thesis
    using rendered_viewD [OF r] assms(3,4) by simp
qed

theorem reachable_one_active_witness:
  "count_list (slide_active (dom_view
      (onDOMContentLoaded (loaded (fresh_view totalSlides) [] :: int page)))) True = 1"
proof -
  let ?p = "onDOMContentLoaded (loaded (fresh_view totalSlides) [] :: int page)"
  have r: "reachable ?p"
    by (rule reachable.step [OF reachable.start, where e = DOMContentLoaded and effs = "[]"])
      (simp_all add: fires_def loaded_def)
  have facts: "listening ?p" "length (slide_active (dom_view ?p)) = totalSlides"
      "length (indicator_active (dom_view ?p)) = totalSlides"
    by (simp_all add: onDOMContentLoaded_def initDemoInteraction_def init_def Let_def
        loaded_def fresh_view_def)
  show ?thesis
    using reachable_one_active [OF r facts] by simp
qed


text \<open>
  C24. Every slide can be reached from the keyboard: on any reachable page
  whose listeners are installed, pressing Home and then ArrowRight \<open>n - 1\<close>
  times shows slide \<open>n\<close>, for every slide number \<open>n\<close>; at most
  \<open>totalSlides\<close> key presses are needed.
\<close>

theorem keys_reach_every_slide:
  fixes p :: "int page"
  assumes "reachable p" and "listening p" and "in_deck n"
  shows "currentSlide (run (map KeyDown (''Home'' # replicate (nat (n - 1)) ''ArrowRight'')) p) = n"
proof -
  let ?ks = "''Home'' # replicate (nat (n - 1)) ''ArrowRight''"
  let ?q = "run (map KeyDown ?ks) p"
  have n: "1 \<le> n" "n \<le> 8"
    using assms(3) by (simp_all add: in_deck_int_iff totalSlides_def)
  have calls: "List.map_filter key_nav ?ks = GoTo 1 # replicate (nat (n - 1)) (Next :: int nav_op)"
    by (simp add: List.map_filter_def key_nav_def)
  have q: "position ?q = fold nav_abs (List.map_filter key_nav ?ks) (position p) \<and> reachable ?q"
    using key_run_position [OF assms(1,2)] by blast
  then have "position ?q = fold nav_abs (GoTo 1 # replicate (nat (n - 1)) Next) (position p)"
    unfolding calls by (rule conjunct1)
  also have "\<dots> = nat (n - 1)"
    using n by (simp add: fold_nav_abs_Next totalSlides_def del: fold_replicate)
  finally have "position ?q = nat (n - 1)" .
  moreover have "in_deck (currentSlide ?q)"
    using q page_inv_in_deck reachable_page_inv_lemma by blast
  ultimately show ?thesis
    using n currentSlide_position [of ?q] by simp
qed

theorem keys_reach_every_slide_witness:
  "currentSlide (run (map KeyDown (''Home'' # replicate 5 ''ArrowRight''))
      (run (map KeyDown [''End'']) (onDOMContentLoaded (loaded (fresh_view totalSlides) [] :: int page)))) = 6"
proof -
  let ?p = "onDOMContentLoaded (loaded (fresh_view totalSlides) [] :: int page)"
  have r0: "reachable ?p"
    by (rule reachable.step [OF reachable.start, where e = DOMContentLoaded and effs = "[]"])
      (simp_all add: fires_def loaded_def)
  have l0: "listening ?p"
    by (simp add: onDOMContentLoaded_def initDemoInteraction_def init_def Let_def)
  have r: "reachable (run (map KeyDown [''End'']) ?p)" and l: "listening (run (map KeyDown [''End'']) ?p)"
    using key_run_position [OF r0 l0, of "[''End'']"] by blast+
  have "in_deck (6::int)" by (simp add: in_deck_int_iff totalSlides_def)
  from keys_reach_every_slide [OF r l this] show ?thesis
    by simp
qed

end
